theory Spec2Isabelle
  imports Complex_Main
begin

section \<open>JavaScript values of a request body\<close>

text \<open>
  A request body is a parsed JSON object; the handlers destructure it
  (\<^verbatim>\<open>const { email, password } = req.body\<close>) and test the fields by truthiness
  (\<^verbatim>\<open>!email\<close>). A field that is not in the body reads as \<^verbatim>\<open>undefined\<close>. The field values
  covered are the JSON scalars; a number stands for the decimal it is written as.
\<close>

datatype jsval = JUndefined | JNull | JBool bool | JNum rat | JStr string

type_synonym body = "string \<Rightarrow> jsval"

definition empty_body :: body where
  "empty_body = (\<lambda>_. JUndefined)"

text \<open>ToBoolean of ECMAScript on these values.\<close>

fun truthy :: "jsval \<Rightarrow> bool" where
  "truthy JUndefined = False"
| "truthy JNull = False"
| "truthy (JBool b) = b"
| "truthy (JNum r) = (r \<noteq> 0)"
| "truthy (JStr s) = (s \<noteq> [])"

text \<open>\<^verbatim>\<open>a || b\<close>\<close>

definition js_or :: "jsval \<Rightarrow> jsval \<Rightarrow> jsval" where
  "js_or a b = (if truthy a then a else b)"

fun js_typeof :: "jsval \<Rightarrow> string" where
  "js_typeof JUndefined = ''undefined''"
| "js_typeof JNull = ''object''"
| "js_typeof (JBool b) = ''boolean''"
| "js_typeof (JNum r) = ''number''"
| "js_typeof (JStr s) = ''string''"

definition is_null :: "jsval \<Rightarrow> bool" where
  "is_null v = (v = JNull \<or> v = JUndefined)"

text \<open>A JavaScript number: the result of \<^verbatim>\<open>parseFloat\<close>.\<close>

datatype jsnum = NaN | PlusInfinity | MinusInfinity | Finite rat

section \<open>Identifiers\<close>

text \<open>
  A row identifier is a UUID; the ORM generates it (\<^verbatim>\<open>DataTypes.UUIDV4\<close>) and the
  database keeps it in the \<^verbatim>\<open>uuid\<close> type. \<open>Uuid s\<close> is the identifier whose canonical text
  is \<open>s\<close>.
\<close>

datatype uuid = Uuid string

fun uuid_text :: "uuid \<Rightarrow> string" where
  "uuid_text (Uuid s) = s"

section \<open>Errors thrown by the libraries\<close>

text \<open>The entries of a \<^verbatim>\<open>SequelizeValidationError\<close>: the model and the column, or the validator and the column.\<close>

datatype validation_item = NotNullViolation string string | ValidatorFailed string string

text \<open>What the database rejects in a statement before it looks at the constraints of the table.\<close>

datatype db_fault =
    InvalidText string
  | InvalidUuid string
  | InvalidEnum string
  | TooLong string
  | NumericOverflow string
  | NoOperator string

datatype exn =
    SequelizeValidationError "validation_item list"
  | SequelizeUniqueConstraintError
  | SequelizeForeignKeyConstraintError
  | SequelizeDatabaseError "db_fault list"
  | JsonWebTokenError
  | TokenExpiredError
  | IllegalArguments string string

text \<open>\<^verbatim>\<open>error.name\<close>; bcryptjs throws a plain \<^verbatim>\<open>Error\<close>.\<close>

fun exn_name :: "exn \<Rightarrow> string" where
  "exn_name (SequelizeValidationError _) = ''SequelizeValidationError''"
| "exn_name SequelizeUniqueConstraintError = ''SequelizeUniqueConstraintError''"
| "exn_name SequelizeForeignKeyConstraintError = ''SequelizeForeignKeyConstraintError''"
| "exn_name (SequelizeDatabaseError _) = ''SequelizeDatabaseError''"
| "exn_name JsonWebTokenError = ''JsonWebTokenError''"
| "exn_name TokenExpiredError = ''TokenExpiredError''"
| "exn_name (IllegalArguments _ _) = ''Error''"

text \<open>\<^verbatim>\<open>error.errors\<close>\<close>

fun exn_errors :: "exn \<Rightarrow> validation_item list" where
  "exn_errors (SequelizeValidationError items) = items"
| "exn_errors _ = []"

text \<open>The message of one entry, as Sequelize words it.\<close>

fun item_message :: "validation_item \<Rightarrow> string" where
  "item_message (NotNullViolation model column) = model @ ''.'' @ column @ '' cannot be null''"
| "item_message (ValidatorFailed validator column) =
     ''Validation '' @ validator @ '' on '' @ column @ '' failed''"

section \<open>Bearer tokens\<close>

text \<open>
  A token is a string in the program. The model keeps what the string stands for: the
  payload \<^verbatim>\<open>{ userId }\<close>, the secret it was signed with, and the \<^verbatim>\<open>iat\<close> and \<^verbatim>\<open>exp\<close>
  claims in seconds. \<open>Garbage\<close> is any string that is not a signed token.
\<close>

datatype token =
    Signed (tok_userId: uuid) (tok_secret: string) (tok_iat: nat) (tok_exp: nat)
  | Garbage string

text \<open>
  Modelled from the spec: the signing and verification primitive (\<^verbatim>\<open>jwt.sign\<close> and
  \<^verbatim>\<open>jwt.verify\<close> of the jsonwebtoken package, which is not part of the repository).
  \<open>issue\<close> produces a signed, time-bounded credential encoding the user identifier;
  \<open>verify\<close> checks signature and expiry and returns one of: valid with identity, expired,
  invalid signature or malformed.
\<close>

definition jwt_sign :: "uuid \<Rightarrow> string \<Rightarrow> nat \<Rightarrow> nat \<Rightarrow> token" where
  "jwt_sign userId secret expiresIn now = Signed userId secret now (now + expiresIn)"

definition jwt_verify :: "token \<Rightarrow> string \<Rightarrow> nat \<Rightarrow> exn + uuid" where
  "jwt_verify tok secret now =
     (case tok of
        Garbage _ \<Rightarrow> Inl JsonWebTokenError
      | Signed userId k issued expires \<Rightarrow>
          if k \<noteq> secret then Inl JsonWebTokenError
          else if expires \<le> now then Inl TokenExpiredError
          else Inr userId)"

text \<open>
  The \<^verbatim>\<open>Authorization\<close> header: missing, present without the \<^verbatim>\<open>Bearer \<close> prefix, or
  \<^verbatim>\<open>Bearer \<close> followed by a token.
\<close>

datatype auth_header = NoHeader | NotBearer string | Bearer token

section \<open>Responses\<close>

datatype json =
    JV jsval
  | JToken token
  | JDate nat
  | JObject "(string \<times> json) list"
  | JArray "json list"

record response =
  status :: nat
  content :: "(string \<times> json) list"

definition reply :: "nat \<Rightarrow> (string \<times> json) list \<Rightarrow> response" where
  "reply code kvs = \<lparr>status = code, content = kvs\<rparr>"

definition error_reply :: "nat \<Rightarrow> string \<Rightarrow> response" where
  "error_reply code msg = reply code [(''error'', JV (JStr msg))]"

text \<open>A property of the response body; \<open>None\<close> when the body has no such property.\<close>

definition reply_field :: "response \<Rightarrow> string \<Rightarrow> json option" where
  "reply_field r k = map_of (content r) k"

section \<open>Process environment and library functions\<close>

text \<open>
  What the handlers take from outside the repository: two environment variables, the
  e-mail test of the ORM's \<^verbatim>\<open>isEmail\<close> validator, bcryptjs, \<^verbatim>\<open>parseFloat\<close> on strings, the
  text the database driver sends for a number, the database's reading of a text as a
  UUID (\<open>None\<close> when it is not one), and the message texts of database errors.
\<close>

record env =
  JWT_SECRET :: "string option"
  NODE_ENV :: "string option"
  isEmail :: "string \<Rightarrow> bool"
  bcrypt_hash :: "string \<Rightarrow> string"
  bcrypt_compare :: "string \<Rightarrow> string \<Rightarrow> bool"
  parseFloat :: "string \<Rightarrow> jsnum"
  number_text :: "rat \<Rightarrow> string"
  parse_uuid :: "string \<Rightarrow> uuid option"
  database_message :: "exn \<Rightarrow> string"

text \<open>\<^verbatim>\<open>process.env.JWT_SECRET || 'carnival-secret-key'\<close>\<close>

definition secret :: "env \<Rightarrow> string" where
  "secret e =
     (case JWT_SECRET e of
        None \<Rightarrow> ''carnival-secret-key''
      | Some s \<Rightarrow> if s \<noteq> [] then s else ''carnival-secret-key'')"

text \<open>
  bcryptjs rejects an argument that is not a string with
  \<^verbatim>\<open>Error("Illegal arguments: " + typeof s + ", " + typeof salt)\<close>; the salt is the number 12,
  the hash a string.
\<close>

definition hash_password :: "env \<Rightarrow> jsval \<Rightarrow> exn + string" where
  "hash_password e v =
     (case v of
        JStr s \<Rightarrow> Inr (bcrypt_hash e s)
      | _ \<Rightarrow> Inl (IllegalArguments (js_typeof v) ''number''))"

definition compare_password :: "env \<Rightarrow> jsval \<Rightarrow> string \<Rightarrow> exn + bool" where
  "compare_password e v h =
     (case v of
        JStr s \<Rightarrow> Inr (bcrypt_compare e s h)
      | _ \<Rightarrow> Inl (IllegalArguments (js_typeof v) ''string''))"

text \<open>
  \<^verbatim>\<open>error.message\<close>: Sequelize joins the entries of a validation error, a unique
  constraint error says \<^verbatim>\<open>Validation error\<close>, and the other database errors carry the
  text of the database.
\<close>

fun item_type :: "validation_item \<Rightarrow> string" where
  "item_type (NotNullViolation _ _) = ''notNull Violation''"
| "item_type (ValidatorFailed _ _) = ''Validation error''"

fun join_lines :: "string list \<Rightarrow> string" where
  "join_lines [] = []"
| "join_lines [x] = x"
| "join_lines (x # y # ys) = x @ [CHR '','', CHR 0x0A] @ join_lines (y # ys)"

definition error_message :: "env \<Rightarrow> exn \<Rightarrow> string" where
  "error_message e err =
     (case err of
        IllegalArguments a b \<Rightarrow> ''Illegal arguments: '' @ a @ '', '' @ b
      | SequelizeValidationError items \<Rightarrow>
          join_lines (map (\<lambda>i. item_type i @ '': '' @ item_message i) items)
      | SequelizeUniqueConstraintError \<Rightarrow> ''Validation error''
      | _ \<Rightarrow> database_message e err)"

text \<open>\<^verbatim>\<open>parseFloat(price)\<close>: a number is read back as itself, a string is parsed, anything else is NaN.\<close>

definition js_parseFloat :: "env \<Rightarrow> jsval \<Rightarrow> jsnum" where
  "js_parseFloat e v = (case v of JNum r \<Rightarrow> Finite r | JStr s \<Rightarrow> parseFloat e s | _ \<Rightarrow> NaN)"

text \<open>\<^verbatim>\<open>generateToken\<close>: \<^verbatim>\<open>expiresIn: '7d'\<close>.\<close>

definition seven_days :: nat where
  "seven_days = 7 * 24 * 60 * 60"

definition generateToken :: "env \<Rightarrow> nat \<Rightarrow> uuid \<Rightarrow> token" where
  "generateToken e now userId = jwt_sign userId (secret e) seven_days now"

section \<open>The data layer\<close>

text \<open>
  The tables of models/index.js that the route handlers touch. A row keeps the
  identifier the ORM generated for it, the columns, and the two automatic timestamps.
  Tables are lists in insertion order, and a query without an ordering returns rows in
  that order. Loss of connectivity is not modelled.
\<close>

record carnival_group =
  cg_id :: uuid
  cg_name :: string
  cg_city :: string
  cg_province :: "string option"
  cg_country :: string
  cg_description :: "string option"
  cg_website :: "string option"
  cg_verified :: bool
  cg_createdAt :: nat
  cg_updatedAt :: nat

record user =
  u_id :: uuid
  u_email :: string
  u_password :: string
  u_firstName :: string
  u_lastName :: string
  u_phone :: "string option"
  u_address :: "string option"
  u_city :: "string option"
  u_postalCode :: "string option"
  u_isVerified :: bool
  u_isActive :: bool
  u_lastLoginAt :: "nat option"
  u_carnivalGroupId :: uuid
  u_createdAt :: nat
  u_updatedAt :: nat

record category =
  cat_id :: uuid
  cat_name :: string
  cat_slug :: string
  cat_description :: "string option"
  cat_emoji :: "string option"

text \<open>A \<^verbatim>\<open>DECIMAL(10, 2)\<close> column holds NaN or a number of hundredths.\<close>

datatype price = PriceNaN | Cents int

record product =
  p_id :: uuid
  p_title :: string
  p_description :: string
  p_price :: price
  p_condition :: string
  p_size :: "string option"
  p_color :: "string option"
  p_material :: "string option"
  p_isAvailable :: bool
  p_isFeatured :: bool
  p_viewCount :: nat
  p_sellerId :: uuid
  p_categoryId :: uuid
  p_createdAt :: nat
  p_updatedAt :: nat

record db =
  groups :: "carnival_group list"
  users :: "user list"
  categories :: "category list"
  products :: "product list"

definition empty_db :: db where
  "empty_db = \<lparr>groups = [], users = [], categories = [], products = []\<rparr>"

subsection \<open>Values on their way into a column\<close>

text \<open>
  The driver sends a value as text: a string as it is, a boolean as \<^verbatim>\<open>true\<close> or \<^verbatim>\<open>false\<close>,
  a number as JavaScript prints it. The database rejects a text that holds the character
  NUL, and a text of more than 255 characters for a \<^verbatim>\<open>DataTypes.STRING\<close> column, which is
  \<^verbatim>\<open>character varying(255)\<close>; a \<^verbatim>\<open>DataTypes.TEXT\<close> column has no such bound.
\<close>

definition column_text :: "env \<Rightarrow> jsval \<Rightarrow> string" where
  "column_text e v =
     (case v of
        JStr s \<Rightarrow> s
      | JBool b \<Rightarrow> (if b then ''true'' else ''false'')
      | JNum r \<Rightarrow> number_text e r
      | _ \<Rightarrow> [])"

definition nullable_text :: "env \<Rightarrow> jsval \<Rightarrow> string option" where
  "nullable_text e v = (if is_null v then None else Some (column_text e v))"

definition text_faults :: "string \<Rightarrow> string \<Rightarrow> db_fault list" where
  "text_faults column s = (if CHR 0x00 \<in> set s then [InvalidText column] else [])"

definition varchar_faults :: "string \<Rightarrow> string \<Rightarrow> db_fault list" where
  "varchar_faults column s =
     text_faults column s @ (if 255 < length s then [TooLong column] else [])"

definition nullable_varchar_faults :: "string \<Rightarrow> string option \<Rightarrow> db_fault list" where
  "nullable_varchar_faults column t = (case t of None \<Rightarrow> [] | Some s \<Rightarrow> varchar_faults column s)"

definition nullable_text_faults :: "string \<Rightarrow> string option \<Rightarrow> db_fault list" where
  "nullable_text_faults column t = (case t of None \<Rightarrow> [] | Some s \<Rightarrow> text_faults column s)"

text \<open>
  A foreign key handed to \<^verbatim>\<open>create\<close> is either a value taken from the request body, which
  the database has to read as a UUID, or the identifier of a row the handler has loaded.
\<close>

definition reference :: "env \<Rightarrow> jsval + uuid \<Rightarrow> uuid option" where
  "reference e r = (case r of Inr i \<Rightarrow> Some i | Inl v \<Rightarrow> parse_uuid e (column_text e v))"

definition reference_faults :: "env \<Rightarrow> string \<Rightarrow> jsval + uuid \<Rightarrow> db_fault list" where
  "reference_faults e column r = (if reference e r = None then [InvalidUuid column] else [])"

definition not_null :: "string \<Rightarrow> string \<Rightarrow> jsval \<Rightarrow> validation_item list" where
  "not_null model column v = (if is_null v then [NotNullViolation model column] else [])"

definition reference_not_null :: "string \<Rightarrow> string \<Rightarrow> jsval + uuid \<Rightarrow> validation_item list" where
  "reference_not_null model column r =
     (case r of Inl v \<Rightarrow> not_null model column v | Inr i \<Rightarrow> [])"

subsection \<open>Queries\<close>

text \<open>
  \<^verbatim>\<open>User.findOne({ where: { email } })\<close>. The handlers call it with a truthy value; the
  database has no comparison of the column with a number or a boolean, and the query fails.
\<close>

definition User_findOne_email :: "db \<Rightarrow> jsval \<Rightarrow> exn + user option" where
  "User_findOne_email d email =
     (case email of
        JStr s \<Rightarrow> Inr (find (\<lambda>u. u_email u = s) (users d))
      | JNull \<Rightarrow> Inr None
      | _ \<Rightarrow> Inl (SequelizeDatabaseError [NoOperator ''email'']))"

definition User_findByPk :: "db \<Rightarrow> uuid \<Rightarrow> user option" where
  "User_findByPk d pk = find (\<lambda>u. u_id u = pk) (users d)"

text \<open>\<^verbatim>\<open>CarnivalGroup.findOne()\<close>: the first row, or null.\<close>

definition CarnivalGroup_findOne :: "db \<Rightarrow> carnival_group option" where
  "CarnivalGroup_findOne d = (case groups d of [] \<Rightarrow> None | g # _ \<Rightarrow> Some g)"

text \<open>
  \<^verbatim>\<open>CarnivalGroup.findByPk(groupId)\<close> with a value of the request body: the query fails
  when the value is not the text of a UUID.
\<close>

definition CarnivalGroup_findByPk :: "env \<Rightarrow> db \<Rightarrow> jsval \<Rightarrow> exn + carnival_group option" where
  "CarnivalGroup_findByPk e d pk =
     (case pk of
        JStr s \<Rightarrow>
          (case parse_uuid e s of
             None \<Rightarrow> Inl (SequelizeDatabaseError [InvalidUuid ''id''])
           | Some i \<Rightarrow> Inr (find (\<lambda>g. cg_id g = i) (groups d)))
      | JNull \<Rightarrow> Inr None
      | JUndefined \<Rightarrow> Inr None
      | _ \<Rightarrow> Inl (SequelizeDatabaseError [NoOperator ''id'']))"

definition Category_findOne :: "db \<Rightarrow> category option" where
  "Category_findOne d = (case categories d of [] \<Rightarrow> None | c # _ \<Rightarrow> Some c)"

subsection \<open>Inserts\<close>

text \<open>
  \<^verbatim>\<open>CarnivalGroup.create({ name, city, country, verified })\<close>. The primary key and
  \<open>name\<close> are unique; the other columns take their defaults.
\<close>

definition CarnivalGroup_create ::
  "nat \<Rightarrow> uuid \<Rightarrow> string \<Rightarrow> string \<Rightarrow> string \<Rightarrow> bool \<Rightarrow> db \<Rightarrow> exn + carnival_group \<times> db" where
  "CarnivalGroup_create now newId name city country verified d =
     (if newId \<in> set (map cg_id (groups d)) \<or> name \<in> set (map cg_name (groups d))
      then Inl SequelizeUniqueConstraintError
      else
        let g = \<lparr>cg_id = newId, cg_name = name, cg_city = city, cg_province = None,
                 cg_country = country, cg_description = None, cg_website = None,
                 cg_verified = verified, cg_createdAt = now, cg_updatedAt = now\<rparr>
        in Inr (g, d\<lparr>groups := groups d @ [g]\<rparr>))"

text \<open>The object handed to \<^verbatim>\<open>User.create\<close>; the password is the hash.\<close>

record user_values =
  v_email :: jsval
  v_password :: string
  v_firstName :: jsval
  v_lastName :: jsval
  v_phone :: jsval
  v_carnivalGroupId :: "jsval + uuid"
  v_address :: jsval
  v_city :: jsval
  v_postalCode :: jsval

text \<open>
  The checks of the User model before the insert: \<^verbatim>\<open>allowNull: false\<close> on email,
  firstName, lastName and carnivalGroupId, and \<^verbatim>\<open>validate: { isEmail: true }\<close> on the text
  of a value that is not null.
\<close>

definition User_validate :: "env \<Rightarrow> user_values \<Rightarrow> validation_item list" where
  "User_validate e v =
     not_null ''User'' ''email'' (v_email v) @ not_null ''User'' ''firstName'' (v_firstName v) @
     not_null ''User'' ''lastName'' (v_lastName v) @
     reference_not_null ''User'' ''carnivalGroupId'' (v_carnivalGroupId v) @
     (if is_null (v_email v) \<or> isEmail e (column_text e (v_email v)) then []
      else [ValidatorFailed ''isEmail'' ''email''])"

text \<open>
  What the database rejects in the values of the insert. The address is a
  \<^verbatim>\<open>DataTypes.TEXT\<close> column; the hash has 60 characters and fits its column.
\<close>

definition User_faults :: "env \<Rightarrow> user_values \<Rightarrow> db_fault list" where
  "User_faults e v =
     varchar_faults ''email'' (column_text e (v_email v)) @
     varchar_faults ''firstName'' (column_text e (v_firstName v)) @
     varchar_faults ''lastName'' (column_text e (v_lastName v)) @
     nullable_varchar_faults ''phone'' (nullable_text e (v_phone v)) @
     nullable_text_faults ''address'' (nullable_text e (v_address v)) @
     nullable_varchar_faults ''city'' (nullable_text e (v_city v)) @
     nullable_varchar_faults ''postalCode'' (nullable_text e (v_postalCode v)) @
     reference_faults e ''carnivalGroupId'' (v_carnivalGroupId v)"

text \<open>
  \<^verbatim>\<open>User.create\<close>: the validation of the model, then the insert, which the database
  rejects for a value it cannot store, for a primary key or an e-mail that is in the
  table (\<^verbatim>\<open>unique: true\<close>), and for a carnivalGroupId that is no carnival group
  (\<^verbatim>\<open>references\<close>).
\<close>

definition User_create :: "env \<Rightarrow> nat \<Rightarrow> uuid \<Rightarrow> user_values \<Rightarrow> db \<Rightarrow> exn + user \<times> db" where
  "User_create e now newId v d =
     (if User_validate e v \<noteq> [] then Inl (SequelizeValidationError (User_validate e v))
      else if User_faults e v \<noteq> [] then Inl (SequelizeDatabaseError (User_faults e v))
      else if newId \<in> set (map u_id (users d)) \<or>
              column_text e (v_email v) \<in> set (map u_email (users d))
      then Inl SequelizeUniqueConstraintError
      else
        (case reference e (v_carnivalGroupId v) of
           None \<Rightarrow> Inl (SequelizeDatabaseError [InvalidUuid ''carnivalGroupId''])
         | Some gid \<Rightarrow>
             if gid \<in> set (map cg_id (groups d)) then
               let u = \<lparr>u_id = newId, u_email = column_text e (v_email v),
                        u_password = v_password v,
                        u_firstName = column_text e (v_firstName v),
                        u_lastName = column_text e (v_lastName v),
                        u_phone = nullable_text e (v_phone v),
                        u_address = nullable_text e (v_address v),
                        u_city = nullable_text e (v_city v),
                        u_postalCode = nullable_text e (v_postalCode v),
                        u_isVerified = False, u_isActive = True, u_lastLoginAt = None,
                        u_carnivalGroupId = gid, u_createdAt = now, u_updatedAt = now\<rparr>
               in Inr (u, d\<lparr>users := users d @ [u]\<rparr>)
             else Inl SequelizeForeignKeyConstraintError))"

text \<open>\<^verbatim>\<open>user.update({ lastLoginAt: new Date() })\<close>\<close>

definition touch_login :: "nat \<Rightarrow> user \<Rightarrow> user" where
  "touch_login now u = u\<lparr>u_lastLoginAt := Some now, u_updatedAt := now\<rparr>"

definition User_update_lastLoginAt :: "nat \<Rightarrow> uuid \<Rightarrow> db \<Rightarrow> db" where
  "User_update_lastLoginAt now pk d =
     d\<lparr>users := map (\<lambda>u. if u_id u = pk then touch_login now u else u) (users d)\<rparr>"

subsection \<open>Serialisation of rows\<close>

definition date_or_null :: "nat option \<Rightarrow> json" where
  "date_or_null t = (case t of None \<Rightarrow> JV JNull | Some n \<Rightarrow> JDate n)"

definition string_or_null :: "string option \<Rightarrow> json" where
  "string_or_null s = (case s of None \<Rightarrow> JV JNull | Some t \<Rightarrow> JV (JStr t))"

definition id_json :: "uuid \<Rightarrow> json" where
  "id_json i = JV (JStr (uuid_text i))"

definition User_toJSON :: "user \<Rightarrow> (string \<times> json) list" where
  "User_toJSON u =
     [(''id'', id_json (u_id u)), (''email'', JV (JStr (u_email u))),
      (''password'', JV (JStr (u_password u))),
      (''firstName'', JV (JStr (u_firstName u))), (''lastName'', JV (JStr (u_lastName u))),
      (''phone'', string_or_null (u_phone u)), (''address'', string_or_null (u_address u)),
      (''city'', string_or_null (u_city u)), (''postalCode'', string_or_null (u_postalCode u)),
      (''isVerified'', JV (JBool (u_isVerified u))), (''isActive'', JV (JBool (u_isActive u))),
      (''lastLoginAt'', date_or_null (u_lastLoginAt u)),
      (''carnivalGroupId'', id_json (u_carnivalGroupId u)),
      (''createdAt'', JDate (u_createdAt u)), (''updatedAt'', JDate (u_updatedAt u))]"

text \<open>\<^verbatim>\<open>attributes: { exclude: [...] }\<close>\<close>

definition exclude :: "string list \<Rightarrow> (string \<times> json) list \<Rightarrow> (string \<times> json) list" where
  "exclude ks kvs = filter (\<lambda>kv. fst kv \<notin> set ks) kvs"

text \<open>\<^verbatim>\<open>include: [{ model: CarnivalGroup, attributes: ['name', 'city', 'country'] }]\<close>\<close>

definition include_CarnivalGroup :: "db \<Rightarrow> uuid \<Rightarrow> json" where
  "include_CarnivalGroup d gid =
     (case find (\<lambda>g. cg_id g = gid) (groups d) of
        None \<Rightarrow> JV JNull
      | Some g \<Rightarrow> JObject [(''name'', JV (JStr (cg_name g))), (''city'', JV (JStr (cg_city g))),
                            (''country'', JV (JStr (cg_country g)))])"

text \<open>
  \<^verbatim>\<open>User.findByPk(id, { attributes: { exclude: ['password'] }, include: [...] })\<close>,
  as it is serialised in a response; null when there is no such row.
\<close>

definition User_findByPk_public :: "db \<Rightarrow> uuid \<Rightarrow> json" where
  "User_findByPk_public d pk =
     (case User_findByPk d pk of
        None \<Rightarrow> JV JNull
      | Some u \<Rightarrow> JObject (exclude [''password''] (User_toJSON u) @
                            [(''CarnivalGroup'', include_CarnivalGroup d (u_carnivalGroupId u))]))"

section \<open>routes/auth.js\<close>

text \<open>
  A handler takes the environment, the clock (\<open>now\<close>, in seconds), the identifiers the ORM
  will generate for the rows it inserts, the request and the database, and returns the
  response and the database after it. What the \<^verbatim>\<open>try\<close> block throws is \<open>Inl\<close>; rows
  inserted before the throw stay, since no transaction is used.
\<close>

subsection \<open>POST /api/auth/register\<close>

text \<open>The carnival group of the new user (\<^verbatim>\<open>let groupId = carnivalGroupId; if (!groupId) ...\<close>).\<close>

definition resolve_group ::
  "env \<Rightarrow> nat \<Rightarrow> uuid \<Rightarrow> jsval \<Rightarrow> db \<Rightarrow> (exn + (jsval + uuid)) \<times> db" where
  "resolve_group e now newGroupId carnivalGroupId d =
     (if \<not> truthy carnivalGroupId then
        (case CarnivalGroup_findOne d of
           Some defaultGroup \<Rightarrow> (Inr (Inr (cg_id defaultGroup)), d)
         | None \<Rightarrow>
             (case CarnivalGroup_create now newGroupId ''Default Group'' ''Brussels'' ''Belgium'' True d of
                Inl err \<Rightarrow> (Inl err, d)
              | Inr (newGroup, d') \<Rightarrow> (Inr (Inr (cg_id newGroup)), d')))
      else
        (case CarnivalGroup_findByPk e d carnivalGroupId of
           Inl err \<Rightarrow> (Inl err, d)
         | Inr (Some existingGroup) \<Rightarrow> (Inr (Inl carnivalGroupId), d)
         | Inr None \<Rightarrow>
             (case CarnivalGroup_findOne d of
                Some defaultGroup \<Rightarrow> (Inr (Inr (cg_id defaultGroup)), d)
              | None \<Rightarrow> (Inr (Inl JNull), d))))"

text \<open>The object of \<^verbatim>\<open>User.create\<close> at line 94.\<close>

definition register_values :: "body \<Rightarrow> jsval + uuid \<Rightarrow> string \<Rightarrow> user_values" where
  "register_values b groupId hashedPassword =
     \<lparr>v_email = b ''email'', v_password = hashedPassword,
      v_firstName = b ''firstName'', v_lastName = b ''lastName'',
      v_phone = js_or (b ''phone'') JNull, v_carnivalGroupId = groupId,
      v_address = js_or (b ''address'') JNull, v_city = js_or (b ''city'') JNull,
      v_postalCode = js_or (b ''postalCode'') JNull\<rparr>"

definition registered_reply :: "token \<Rightarrow> json \<Rightarrow> response" where
  "registered_reply tok userData =
     reply 201 [(''message'', JV (JStr ''User registered successfully'')),
                (''token'', JToken tok), (''user'', userData), (''success'', JV (JBool True))]"

definition register_try ::
  "env \<Rightarrow> nat \<Rightarrow> uuid \<Rightarrow> uuid \<Rightarrow> body \<Rightarrow> db \<Rightarrow> (exn + response) \<times> db" where
  "register_try e now newGroupId newUserId b d =
     (if \<not> truthy (b ''email'') \<or> \<not> truthy (b ''password'') \<or>
         \<not> truthy (b ''firstName'') \<or> \<not> truthy (b ''lastName'')
      then (Inr (error_reply 400 ''Email, password, first name, and last name are required''), d)
      else
        (case User_findOne_email d (b ''email'') of
           Inl err \<Rightarrow> (Inl err, d)
         | Inr (Some existingUser) \<Rightarrow>
             (Inr (error_reply 400 ''User already exists with this email''), d)
         | Inr None \<Rightarrow>
             (case resolve_group e now newGroupId (b ''carnivalGroupId'') d of
                (Inl err, d1) \<Rightarrow> (Inl err, d1)
              | (Inr groupId, d1) \<Rightarrow>
                  (case hash_password e (b ''password'') of
                     Inl err \<Rightarrow> (Inl err, d1)
                   | Inr hashedPassword \<Rightarrow>
                       (case User_create e now newUserId
                               (register_values b groupId hashedPassword) d1 of
                          Inl err \<Rightarrow> (Inl err, d1)
                        | Inr (user, d2) \<Rightarrow>
                            (Inr (registered_reply (generateToken e now (u_id user))
                                    (User_findByPk_public d2 (u_id user))), d2))))))"

definition register_catch :: "env \<Rightarrow> exn \<Rightarrow> response" where
  "register_catch e err =
     (if exn_name err = ''SequelizeValidationError'' then
        reply 400 [(''error'', JV (JStr ''Validation error'')),
                   (''details'', JArray (map (\<lambda>i. JV (JStr (item_message i))) (exn_errors err)))]
      else if exn_name err = ''SequelizeUniqueConstraintError'' then
        error_reply 400 ''Email already exists''
      else
        reply 500 [(''error'', JV (JStr ''Server error during registration'')),
                   (''details'', JV (JStr (if NODE_ENV e = Some ''development''
                                           then error_message e err
                                           else ''Internal server error'')))])"

definition register :: "env \<Rightarrow> nat \<Rightarrow> uuid \<Rightarrow> uuid \<Rightarrow> body \<Rightarrow> db \<Rightarrow> response \<times> db" where
  "register e now newGroupId newUserId b d =
     (case register_try e now newGroupId newUserId b d of
        (Inr res, d') \<Rightarrow> (res, d')
      | (Inl err, d') \<Rightarrow> (register_catch e err, d'))"

subsection \<open>The handler, one \<^verbatim>\<open>await\<close> at a time\<close>

text \<open>
  The handler gives up control at every \<^verbatim>\<open>await\<close>, and other requests may reach the
  database in between. A program point names the \<^verbatim>\<open>await\<close> that comes next and keeps the
  local variables that are live there: \<open>Reg_findUser\<close> is line 50, \<open>Reg_findGroup\<close> line 59
  or 75, \<open>Reg_createGroup\<close> line 65, \<open>Reg_findDefault\<close> line 78, \<open>Reg_hash\<close> line 84,
  \<open>Reg_createUser\<close> line 94, \<open>Reg_fetch\<close> line 112, and \<open>Reg_done\<close> holds the response.
\<close>

datatype reg_pc =
    Reg_findUser
  | Reg_findGroup
  | Reg_createGroup
  | Reg_findDefault
  | Reg_hash "jsval + uuid"
  | Reg_createUser "jsval + uuid" string
  | Reg_fetch uuid token
  | Reg_done response

fun reg_step :: "env \<Rightarrow> nat \<Rightarrow> uuid \<Rightarrow> uuid \<Rightarrow> body \<Rightarrow> reg_pc \<Rightarrow> db \<Rightarrow> reg_pc \<times> db" where
  "reg_step e now newGroupId newUserId b Reg_findUser d =
     (if \<not> truthy (b ''email'') \<or> \<not> truthy (b ''password'') \<or>
         \<not> truthy (b ''firstName'') \<or> \<not> truthy (b ''lastName'')
      then (Reg_done (error_reply 400 ''Email, password, first name, and last name are required''), d)
      else
        (case User_findOne_email d (b ''email'') of
           Inl err \<Rightarrow> (Reg_done (register_catch e err), d)
         | Inr (Some existingUser) \<Rightarrow>
             (Reg_done (error_reply 400 ''User already exists with this email''), d)
         | Inr None \<Rightarrow> (Reg_findGroup, d)))"
| "reg_step e now newGroupId newUserId b Reg_findGroup d =
     (if \<not> truthy (b ''carnivalGroupId'') then
        (case CarnivalGroup_findOne d of
           Some defaultGroup \<Rightarrow> (Reg_hash (Inr (cg_id defaultGroup)), d)
         | None \<Rightarrow> (Reg_createGroup, d))
      else
        (case CarnivalGroup_findByPk e d (b ''carnivalGroupId'') of
           Inl err \<Rightarrow> (Reg_done (register_catch e err), d)
         | Inr (Some existingGroup) \<Rightarrow> (Reg_hash (Inl (b ''carnivalGroupId'')), d)
         | Inr None \<Rightarrow> (Reg_findDefault, d)))"
| "reg_step e now newGroupId newUserId b Reg_createGroup d =
     (case CarnivalGroup_create now newGroupId ''Default Group'' ''Brussels'' ''Belgium'' True d of
        Inl err \<Rightarrow> (Reg_done (register_catch e err), d)
      | Inr (newGroup, d') \<Rightarrow> (Reg_hash (Inr (cg_id newGroup)), d'))"
| "reg_step e now newGroupId newUserId b Reg_findDefault d =
     (case CarnivalGroup_findOne d of
        Some defaultGroup \<Rightarrow> (Reg_hash (Inr (cg_id defaultGroup)), d)
      | None \<Rightarrow> (Reg_hash (Inl JNull), d))"
| "reg_step e now newGroupId newUserId b (Reg_hash groupId) d =
     (case hash_password e (b ''password'') of
        Inl err \<Rightarrow> (Reg_done (register_catch e err), d)
      | Inr hashedPassword \<Rightarrow> (Reg_createUser groupId hashedPassword, d))"
| "reg_step e now newGroupId newUserId b (Reg_createUser groupId hashedPassword) d =
     (case User_create e now newUserId (register_values b groupId hashedPassword) d of
        Inl err \<Rightarrow> (Reg_done (register_catch e err), d)
      | Inr (user, d') \<Rightarrow> (Reg_fetch (u_id user) (generateToken e now (u_id user)), d'))"
| "reg_step e now newGroupId newUserId b (Reg_fetch userId tok) d =
     (Reg_done (registered_reply tok (User_findByPk_public d userId)), d)"
| "reg_step e now newGroupId newUserId b (Reg_done res) d = (Reg_done res, d)"

text \<open>
  The handler run without interruption, the clock standing still: seven steps reach
  \<open>Reg_done\<close> from every start.
\<close>

primrec reg_run ::
  "env \<Rightarrow> nat \<Rightarrow> uuid \<Rightarrow> uuid \<Rightarrow> body \<Rightarrow> nat \<Rightarrow> reg_pc \<times> db \<Rightarrow> reg_pc \<times> db" where
  "reg_run e now newGroupId newUserId b 0 s = s"
| "reg_run e now newGroupId newUserId b (Suc n) s =
     reg_run e now newGroupId newUserId b n (reg_step e now newGroupId newUserId b (fst s) (snd s))"

definition reg_serial :: "env \<Rightarrow> nat \<Rightarrow> uuid \<Rightarrow> uuid \<Rightarrow> body \<Rightarrow> db \<Rightarrow> reg_pc \<times> db" where
  "reg_serial e now newGroupId newUserId b d =
     reg_run e now newGroupId newUserId b 7 (Reg_findUser, d)"

subsection \<open>POST /api/auth/login\<close>

definition login_userData :: "db \<Rightarrow> user \<Rightarrow> json" where
  "login_userData d u =
     JObject [(''id'', id_json (u_id u)), (''email'', JV (JStr (u_email u))),
              (''firstName'', JV (JStr (u_firstName u))), (''lastName'', JV (JStr (u_lastName u))),
              (''phone'', string_or_null (u_phone u)), (''address'', string_or_null (u_address u)),
              (''city'', string_or_null (u_city u)),
              (''postalCode'', string_or_null (u_postalCode u)),
              (''isVerified'', JV (JBool (u_isVerified u))),
              (''lastLoginAt'', date_or_null (u_lastLoginAt u)),
              (''CarnivalGroup'', include_CarnivalGroup d (u_carnivalGroupId u)),
              (''createdAt'', JDate (u_createdAt u))]"

definition login_catch :: "env \<Rightarrow> exn \<Rightarrow> response" where
  "login_catch e err =
     reply 500 [(''error'', JV (JStr ''Server error during login'')),
                (''details'', JV (JStr (error_message e err)))]"

definition login :: "env \<Rightarrow> nat \<Rightarrow> body \<Rightarrow> db \<Rightarrow> response \<times> db" where
  "login e now b d =
     (if \<not> truthy (b ''email'') \<or> \<not> truthy (b ''password'')
      then (error_reply 400 ''Email and password are required'', d)
      else
        (case User_findOne_email d (b ''email'') of
           Inl err \<Rightarrow> (login_catch e err, d)
         | Inr None \<Rightarrow> (error_reply 401 ''Invalid email or password'', d)
         | Inr (Some user) \<Rightarrow>
             if \<not> u_isActive user then (error_reply 401 ''Account is deactivated'', d)
             else
               (case compare_password e (b ''password'') (u_password user) of
                  Inl err \<Rightarrow> (login_catch e err, d)
                | Inr isValidPassword \<Rightarrow>
                    if \<not> isValidPassword then (error_reply 401 ''Invalid email or password'', d)
                    else
                      let d' = User_update_lastLoginAt now (u_id user) d in
                      (reply 200
                         [(''message'', JV (JStr ''Login successful'')),
                          (''token'', JToken (generateToken e now (u_id user))),
                          (''user'', login_userData d' (touch_login now user)),
                          (''success'', JV (JBool True))], d'))))"

subsection \<open>GET /api/auth/me\<close>

definition me :: "env \<Rightarrow> nat \<Rightarrow> auth_header \<Rightarrow> db \<Rightarrow> response" where
  "me e now authHeader d =
     (case authHeader of
        Bearer tok \<Rightarrow>
          (case jwt_verify tok (secret e) now of
             Inr userId \<Rightarrow>
               (case User_findByPk d userId of
                  None \<Rightarrow> error_reply 401 ''User not found''
                | Some user \<Rightarrow> reply 200 [(''user'', User_findByPk_public d userId)])
           | Inl err \<Rightarrow>
               if exn_name err = ''JsonWebTokenError'' then error_reply 401 ''Invalid token''
               else if exn_name err = ''TokenExpiredError'' then error_reply 401 ''Token expired''
               else error_reply 500 ''Server error'')
      | _ \<Rightarrow> error_reply 401 ''No token provided'')"

section \<open>routes/products.js\<close>

subsection \<open>The Product model\<close>

text \<open>The object handed to \<^verbatim>\<open>Product.create\<close>; the price is \<^verbatim>\<open>parseFloat(price)\<close>.\<close>

record product_values =
  pv_title :: jsval
  pv_description :: jsval
  pv_price :: jsnum
  pv_condition :: jsval
  pv_categoryId :: "jsval + uuid"
  pv_size :: jsval
  pv_color :: jsval
  pv_material :: jsval
  pv_sellerId :: uuid
  pv_isAvailable :: bool

definition conditions :: "string list" where
  "conditions = [''new'', ''like-new'', ''good'', ''fair'', ''needs-repair'']"

text \<open>
  The checks of the Product model before the insert: \<^verbatim>\<open>allowNull: false\<close> on title,
  description and categoryId, and \<^verbatim>\<open>validate: { min: 0.01 }\<close> on the price, which NaN
  passes (the validator accepts what is not a number).
\<close>

definition Product_validate :: "product_values \<Rightarrow> validation_item list" where
  "Product_validate v =
     not_null ''Product'' ''title'' (pv_title v) @
     not_null ''Product'' ''description'' (pv_description v) @
     reference_not_null ''Product'' ''categoryId'' (pv_categoryId v) @
     (case pv_price v of
        Finite r \<Rightarrow> if r < 1 / 100 then [ValidatorFailed ''min'' ''price''] else []
      | MinusInfinity \<Rightarrow> [ValidatorFailed ''min'' ''price'']
      | _ \<Rightarrow> [])"

text \<open>
  A \<^verbatim>\<open>DECIMAL(10, 2)\<close> column rounds to hundredths, half away from zero, and holds
  fewer than \<open>10 ^ 8\<close> units; it holds NaN and no infinity.
\<close>

definition cents :: "rat \<Rightarrow> int" where
  "cents r = (if 0 \<le> r then \<lfloor>r * 100 + 1 / 2\<rfloor> else - \<lfloor>- r * 100 + 1 / 2\<rfloor>)"

definition price_faults :: "jsnum \<Rightarrow> db_fault list" where
  "price_faults n =
     (case n of
        NaN \<Rightarrow> []
      | Finite r \<Rightarrow> if 10 ^ 10 \<le> \<bar>cents r\<bar> then [NumericOverflow ''price''] else []
      | _ \<Rightarrow> [NumericOverflow ''price''])"

definition stored_price :: "jsnum \<Rightarrow> price" where
  "stored_price n = (case n of Finite r \<Rightarrow> Cents (cents r) | _ \<Rightarrow> PriceNaN)"

definition Product_faults :: "env \<Rightarrow> product_values \<Rightarrow> db_fault list" where
  "Product_faults e v =
     varchar_faults ''title'' (column_text e (pv_title v)) @
     text_faults ''description'' (column_text e (pv_description v)) @
     price_faults (pv_price v) @
     (if column_text e (pv_condition v) \<in> set conditions then [] else [InvalidEnum ''condition'']) @
     nullable_varchar_faults ''size'' (nullable_text e (pv_size v)) @
     nullable_varchar_faults ''color'' (nullable_text e (pv_color v)) @
     nullable_varchar_faults ''material'' (nullable_text e (pv_material v)) @
     reference_faults e ''categoryId'' (pv_categoryId v)"

definition Product_create :: "env \<Rightarrow> nat \<Rightarrow> uuid \<Rightarrow> product_values \<Rightarrow> db \<Rightarrow> exn + product \<times> db" where
  "Product_create e now newId v d =
     (if Product_validate v \<noteq> [] then Inl (SequelizeValidationError (Product_validate v))
      else if Product_faults e v \<noteq> [] then Inl (SequelizeDatabaseError (Product_faults e v))
      else if newId \<in> set (map p_id (products d)) then Inl SequelizeUniqueConstraintError
      else if pv_sellerId v \<notin> set (map u_id (users d)) then Inl SequelizeForeignKeyConstraintError
      else
        (case reference e (pv_categoryId v) of
           None \<Rightarrow> Inl (SequelizeDatabaseError [InvalidUuid ''categoryId''])
         | Some cid \<Rightarrow>
             if cid \<in> set (map cat_id (categories d)) then
               let p = \<lparr>p_id = newId, p_title = column_text e (pv_title v),
                        p_description = column_text e (pv_description v),
                        p_price = stored_price (pv_price v),
                        p_condition = column_text e (pv_condition v),
                        p_size = nullable_text e (pv_size v),
                        p_color = nullable_text e (pv_color v),
                        p_material = nullable_text e (pv_material v),
                        p_isAvailable = pv_isAvailable v, p_isFeatured = False,
                        p_viewCount = 0, p_sellerId = pv_sellerId v, p_categoryId = cid,
                        p_createdAt = now, p_updatedAt = now\<rparr>
               in Inr (p, d\<lparr>products := products d @ [p]\<rparr>)
             else Inl SequelizeForeignKeyConstraintError))"

subsection \<open>Serialisation of a product\<close>

text \<open>The database returns a decimal as text with its two fraction digits.\<close>

definition digit_char :: "nat \<Rightarrow> char" where
  "digit_char n = char_of (48 + n)"

function nat_text :: "nat \<Rightarrow> string" where
  "nat_text n = (if n < 10 then [digit_char n] else nat_text (n div 10) @ [digit_char (n mod 10)])"
  by pat_completeness auto
termination
  by (relation "measure id") auto

definition price_text :: "price \<Rightarrow> string" where
  "price_text p =
     (case p of
        PriceNaN \<Rightarrow> ''NaN''
      | Cents c \<Rightarrow>
          (if c < 0 then ''-'' else []) @ nat_text (nat \<bar>c\<bar> div 100) @ ''.'' @
          [digit_char (nat \<bar>c\<bar> mod 100 div 10), digit_char (nat \<bar>c\<bar> mod 10)])"

definition Product_toJSON :: "product \<Rightarrow> (string \<times> json) list" where
  "Product_toJSON p =
     [(''id'', id_json (p_id p)), (''title'', JV (JStr (p_title p))),
      (''description'', JV (JStr (p_description p))),
      (''price'', JV (JStr (price_text (p_price p)))),
      (''condition'', JV (JStr (p_condition p))), (''size'', string_or_null (p_size p)),
      (''color'', string_or_null (p_color p)), (''material'', string_or_null (p_material p)),
      (''isAvailable'', JV (JBool (p_isAvailable p))),
      (''isFeatured'', JV (JBool (p_isFeatured p))),
      (''viewCount'', JV (JNum (of_nat (p_viewCount p)))),
      (''sellerId'', id_json (p_sellerId p)), (''categoryId'', id_json (p_categoryId p)),
      (''createdAt'', JDate (p_createdAt p)), (''updatedAt'', JDate (p_updatedAt p))]"

text \<open>The two \<^verbatim>\<open>include\<close> entries of the product queries.\<close>

definition include_seller :: "db \<Rightarrow> uuid \<Rightarrow> json" where
  "include_seller d uid =
     (case User_findByPk d uid of
        None \<Rightarrow> JV JNull
      | Some u \<Rightarrow> JObject [(''id'', id_json (u_id u)), (''firstName'', JV (JStr (u_firstName u))),
                            (''lastName'', JV (JStr (u_lastName u))),
                            (''CarnivalGroup'', include_CarnivalGroup d (u_carnivalGroupId u))])"

definition include_Category :: "db \<Rightarrow> uuid \<Rightarrow> json" where
  "include_Category d cid =
     (case find (\<lambda>c. cat_id c = cid) (categories d) of
        None \<Rightarrow> JV JNull
      | Some c \<Rightarrow> JObject [(''name'', JV (JStr (cat_name c))), (''slug'', JV (JStr (cat_slug c))),
                            (''emoji'', string_or_null (cat_emoji c))])"

definition Product_findByPk_full :: "db \<Rightarrow> uuid \<Rightarrow> json" where
  "Product_findByPk_full d pk =
     (case find (\<lambda>p. p_id p = pk) (products d) of
        None \<Rightarrow> JV JNull
      | Some p \<Rightarrow> JObject (Product_toJSON p @
                            [(''seller'', include_seller d (p_sellerId p)),
                             (''Category'', include_Category d (p_categoryId p))]))"

subsection \<open>The authenticate middleware\<close>

text \<open>\<open>Inr\<close> is \<^verbatim>\<open>req.user\<close> when \<^verbatim>\<open>next()\<close> is called; any error thrown gives the same 401.\<close>

definition authenticate :: "env \<Rightarrow> nat \<Rightarrow> auth_header \<Rightarrow> db \<Rightarrow> response + user" where
  "authenticate e now authHeader d =
     (case authHeader of
        Bearer tok \<Rightarrow>
          (case jwt_verify tok (secret e) now of
             Inr userId \<Rightarrow>
               (case User_findByPk d userId of
                  None \<Rightarrow> Inl (error_reply 401 ''User not found'')
                | Some user \<Rightarrow> Inr user)
           | Inl err \<Rightarrow> Inl (error_reply 401 ''Invalid token''))
      | _ \<Rightarrow> Inl (error_reply 401 ''No token provided''))"

subsection \<open>POST /api/products\<close>

definition create_product :: "env \<Rightarrow> nat \<Rightarrow> uuid \<Rightarrow> user \<Rightarrow> body \<Rightarrow> db \<Rightarrow> response \<times> db" where
  "create_product e now newId reqUser b d =
     (if \<not> truthy (b ''title'') \<or> \<not> truthy (b ''description'') \<or>
         \<not> truthy (b ''price'') \<or> \<not> truthy (b ''categoryId'')
      then (error_reply 400 ''Title, description, price, and category are required'', d)
      else
        let validCategoryId =
              (if \<not> truthy (b ''categoryId'') then
                 (case Category_findOne d of
                    Some defaultCategory \<Rightarrow> Inr (cat_id defaultCategory)
                  | None \<Rightarrow> Inl (b ''categoryId''))
               else Inl (b ''categoryId''))
        in
          (case Product_create e now newId
                  \<lparr>pv_title = b ''title'', pv_description = b ''description'',
                   pv_price = js_parseFloat e (b ''price''),
                   pv_condition = js_or (b ''condition'') (JStr ''good''),
                   pv_categoryId = validCategoryId,
                   pv_size = js_or (b ''size'') JNull, pv_color = js_or (b ''color'') JNull,
                   pv_material = js_or (b ''material'') JNull,
                   pv_sellerId = u_id reqUser, pv_isAvailable = True\<rparr> d of
             Inl err \<Rightarrow>
               (reply 500 [(''error'', JV (JStr ''Failed to create product'')),
                           (''details'', JV (JStr (error_message e err)))], d)
           | Inr (product, d') \<Rightarrow>
               (reply 201 [(''success'', JV (JBool True)),
                           (''message'', JV (JStr ''Product created successfully'')),
                           (''product'', Product_findByPk_full d' (p_id product))], d')))"

definition post_products ::
  "env \<Rightarrow> nat \<Rightarrow> uuid \<Rightarrow> auth_header \<Rightarrow> body \<Rightarrow> db \<Rightarrow> response \<times> db" where
  "post_products e now newId authHeader b d =
     (case authenticate e now authHeader d of
        Inl res \<Rightarrow> (res, d)
      | Inr reqUser \<Rightarrow> create_product e now newId reqUser b d)"

section \<open>The second registration handler\<close>

text \<open>
  The source holds a second \<^verbatim>\<open>router.post('/register', ...)\<close>, which takes the first
  carnival group when none is given, never creates one, answers every error with 500
  and builds the user object of the response by hand. Columns it does not set are null.
\<close>

definition register_alt_try ::
  "env \<Rightarrow> nat \<Rightarrow> uuid \<Rightarrow> body \<Rightarrow> db \<Rightarrow> (exn + response) \<times> db" where
  "register_alt_try e now newUserId b d =
     (if \<not> truthy (b ''email'') \<or> \<not> truthy (b ''password'') \<or>
         \<not> truthy (b ''firstName'') \<or> \<not> truthy (b ''lastName'')
      then (Inr (error_reply 400 ''Email, password, first name, and last name are required''), d)
      else
        (case User_findOne_email d (b ''email'') of
           Inl err \<Rightarrow> (Inl err, d)
         | Inr (Some existingUser) \<Rightarrow>
             (Inr (error_reply 400 ''User already exists with this email''), d)
         | Inr None \<Rightarrow>
             let groupId =
                   (if \<not> truthy (b ''carnivalGroupId'') then
                      (case CarnivalGroup_findOne d of
                         Some defaultGroup \<Rightarrow> Inr (cg_id defaultGroup)
                       | None \<Rightarrow> Inl (b ''carnivalGroupId''))
                    else Inl (b ''carnivalGroupId''))
             in
               (case hash_password e (b ''password'') of
                  Inl err \<Rightarrow> (Inl err, d)
                | Inr hashedPassword \<Rightarrow>
                    (case User_create e now newUserId
                            \<lparr>v_email = b ''email'', v_password = hashedPassword,
                             v_firstName = b ''firstName'', v_lastName = b ''lastName'',
                             v_phone = JNull, v_carnivalGroupId = groupId, v_address = JNull,
                             v_city = js_or (b ''city'') JNull, v_postalCode = JNull\<rparr> d of
                       Inl err \<Rightarrow> (Inl err, d)
                     | Inr (user, d') \<Rightarrow>
                         (Inr (reply 201
                                [(''message'', JV (JStr ''User registered successfully'')),
                                 (''token'', JToken (jwt_sign (u_id user) (secret e) seven_days now)),
                                 (''user'', JObject [(''id'', id_json (u_id user)),
                                                     (''email'', JV (JStr (u_email user))),
                                                     (''firstName'', JV (JStr (u_firstName user))),
                                                     (''lastName'', JV (JStr (u_lastName user)))]),
                                 (''success'', JV (JBool True))]), d')))))"

definition register_alt :: "env \<Rightarrow> nat \<Rightarrow> uuid \<Rightarrow> body \<Rightarrow> db \<Rightarrow> response \<times> db" where
  "register_alt e now newUserId b d =
     (case register_alt_try e now newUserId b d of
        (Inr res, d') \<Rightarrow> (res, d')
      | (Inl err, d') \<Rightarrow>
          (reply 500 [(''error'', JV (JStr ''Server error during registration'')),
                      (''details'', JV (JStr (error_message e err)))], d'))"

section \<open>Runs of the server\<close>

text \<open>
  Requests are handled concurrently: between two \<^verbatim>\<open>await\<close>s of one handler, other
  handlers may reach the database (spec, section 5). What changes the database is a
  statement that writes: the inserts of carnival groups, users and products, the update
  of \<^verbatim>\<open>lastLoginAt\<close>, and the scripts under scripts/, which write carnival groups and
  categories only. \<open>db_write\<close> is one such statement with any arguments, so that the runs it
  generates include every interleaving of every handler.
\<close>

inductive db_write :: "env \<Rightarrow> db \<Rightarrow> db \<Rightarrow> bool" for e :: env where
  write_group:
    "CarnivalGroup_create now newId name city country verified d = Inr (g, d') \<Longrightarrow> db_write e d d'"
| write_user: "User_create e now newId v d = Inr (u, d') \<Longrightarrow> db_write e d d'"
| write_login: "db_write e d (User_update_lastLoginAt now pk d)"
| write_product: "Product_create e now newId pv d = Inr (p, d') \<Longrightarrow> db_write e d d'"
| write_script: "users d' = users d \<Longrightarrow> products d' = products d \<Longrightarrow> db_write e d d'"

text \<open>A run starts on tables without users and products.\<close>

inductive reachable :: "env \<Rightarrow> db \<Rightarrow> bool" for e :: env where
  reachable_init: "users d = [] \<Longrightarrow> products d = [] \<Longrightarrow> reachable e d"
| reachable_write: "reachable e d \<Longrightarrow> db_write e d d' \<Longrightarrow> reachable e d'"

text \<open>
  One registration request among the others: it takes its next step, with the clock at
  that moment, or another request writes.
\<close>

inductive reg_move ::
  "env \<Rightarrow> uuid \<Rightarrow> uuid \<Rightarrow> body \<Rightarrow> reg_pc \<times> db \<Rightarrow> reg_pc \<times> db \<Rightarrow> bool"
  for e :: env and newGroupId :: uuid and newUserId :: uuid and b :: body where
  reg_own: "reg_step e now newGroupId newUserId b pc d = (pc', d') \<Longrightarrow>
            reg_move e newGroupId newUserId b (pc, d) (pc', d')"
| reg_other: "db_write e d d' \<Longrightarrow> reg_move e newGroupId newUserId b (pc, d) (pc, d')"

text \<open>The program points before the handler has inserted its user.\<close>

fun before_insert :: "reg_pc \<Rightarrow> bool" where
  "before_insert (Reg_fetch _ _) = False"
| "before_insert (Reg_done _) = False"
| "before_insert _ = True"

text \<open>The e-mail of a payload is the e-mail of a user row.\<close>

definition email_taken :: "db \<Rightarrow> jsval \<Rightarrow> bool" where
  "email_taken d v = (case v of JStr s \<Rightarrow> s \<in> set (map u_email (users d)) | _ \<Rightarrow> False)"

section \<open>Payloads\<close>

text \<open>What the database stores in a \<^verbatim>\<open>character varying(255)\<close> column, and in a text column.\<close>

definition fits_text :: "string \<Rightarrow> bool" where
  "fits_text s = (CHR 0x00 \<notin> set s)"

definition fits_varchar :: "string \<Rightarrow> bool" where
  "fits_varchar s = (fits_text s \<and> length s \<le> 255)"

definition required_varchar :: "jsval \<Rightarrow> bool" where
  "required_varchar v = (case v of JStr s \<Rightarrow> s \<noteq> [] \<and> fits_varchar s | _ \<Rightarrow> False)"

definition optional_varchar :: "jsval \<Rightarrow> bool" where
  "optional_varchar v = (\<not> truthy v \<or> (case v of JStr s \<Rightarrow> fits_varchar s | _ \<Rightarrow> False))"

definition optional_text :: "jsval \<Rightarrow> bool" where
  "optional_text v = (\<not> truthy v \<or> (case v of JStr s \<Rightarrow> fits_text s | _ \<Rightarrow> False))"

text \<open>
  A registration payload the handler, the User model and the database accept: e-mail,
  password and both names are non-empty strings, the e-mail passes \<^verbatim>\<open>isEmail\<close>, and every
  text, also of the optional fields that are present, fits its column.
\<close>

definition valid_registration :: "env \<Rightarrow> body \<Rightarrow> bool" where
  "valid_registration e b =
     ((case b ''email'' of JStr s \<Rightarrow> s \<noteq> [] \<and> fits_varchar s \<and> isEmail e s | _ \<Rightarrow> False) \<and>
      (case b ''password'' of JStr p \<Rightarrow> p \<noteq> [] | _ \<Rightarrow> False) \<and>
      required_varchar (b ''firstName'') \<and> required_varchar (b ''lastName'') \<and>
      optional_varchar (b ''phone'') \<and> optional_text (b ''address'') \<and>
      optional_varchar (b ''city'') \<and> optional_varchar (b ''postalCode''))"

text \<open>The payload names a carnival group by a well-formed identifier, and there is no such group.\<close>

definition names_unknown_group :: "env \<Rightarrow> db \<Rightarrow> body \<Rightarrow> bool" where
  "names_unknown_group e d b =
     (truthy (b ''carnivalGroupId'') \<and> CarnivalGroup_findByPk e d (b ''carnivalGroupId'') = Inr None)"

text \<open>
  The carnival group of the payload can be resolved: none is given, or the one given
  exists, or it is a well-formed identifier and some carnival group exists to stand in.
\<close>

definition group_resolvable :: "env \<Rightarrow> db \<Rightarrow> body \<Rightarrow> bool" where
  "group_resolvable e d b =
     (\<not> truthy (b ''carnivalGroupId'') \<or>
      (case CarnivalGroup_findByPk e d (b ''carnivalGroupId'') of
         Inl err \<Rightarrow> False
       | Inr None \<Rightarrow> groups d \<noteq> []
       | Inr (Some g) \<Rightarrow> True))"

section \<open>An environment to evaluate the handlers in\<close>

subsection \<open>The database's reading of a UUID\<close>

text \<open>
  PostgreSQL reads sixteen bytes of two hexadecimal digits each, in either case, with an
  optional hyphen after every second byte and optional braces around the whole, and
  prints the identifier in lower case in the 8-4-4-4-12 form.
\<close>

definition is_hex :: "char \<Rightarrow> bool" where
  "is_hex c = (c \<in> set ''0123456789abcdefABCDEF'')"

definition lower_hex :: "char \<Rightarrow> char" where
  "lower_hex c =
     (if c = CHR ''A'' then CHR ''a'' else if c = CHR ''B'' then CHR ''b''
      else if c = CHR ''C'' then CHR ''c'' else if c = CHR ''D'' then CHR ''d''
      else if c = CHR ''E'' then CHR ''e'' else if c = CHR ''F'' then CHR ''f'' else c)"

fun pg_uuid_bytes :: "nat \<Rightarrow> string \<Rightarrow> (string \<times> string) option" where
  "pg_uuid_bytes 0 s = Some ([], s)"
| "pg_uuid_bytes (Suc n) (a # c # s) =
     (if is_hex a \<and> is_hex c then
        (case pg_uuid_bytes n (if odd (15 - n) \<and> 0 < n \<and> take 1 s = ''-'' then drop 1 s else s) of
           None \<Rightarrow> None
         | Some (h, r) \<Rightarrow> Some (lower_hex a # lower_hex c # h, r))
      else None)"
| "pg_uuid_bytes (Suc n) s = None"

definition pg_uuid :: "string \<Rightarrow> uuid option" where
  "pg_uuid s =
     (let braces = (take 1 s = ''{'') in
      case pg_uuid_bytes 16 (if braces then drop 1 s else s) of
        None \<Rightarrow> None
      | Some (h, r) \<Rightarrow>
          if r = (if braces then ''}'' else [])
          then Some (Uuid (take 8 h @ ''-'' @ take 4 (drop 8 h) @ ''-'' @ take 4 (drop 12 h) @
                            ''-'' @ take 4 (drop 16 h) @ ''-'' @ drop 20 h))
          else None)"

subsection \<open>parseFloat and the text of a number\<close>

text \<open>
  \<^verbatim>\<open>parseFloat\<close> skips leading white space and reads the longest prefix that is a
  decimal literal: a sign, then \<^verbatim>\<open>Infinity\<close> or digits with an optional fraction and an
  optional exponent. The result is taken exactly, without the rounding of a double.
\<close>

definition is_digit :: "char \<Rightarrow> bool" where
  "is_digit c = (c \<in> set ''0123456789'')"

definition digit_value :: "char \<Rightarrow> nat" where
  "digit_value c = of_char c - 48"

definition digits_value :: "string \<Rightarrow> nat" where
  "digits_value ds = foldl (\<lambda>a c. 10 * a + digit_value c) 0 ds"

definition is_space :: "char \<Rightarrow> bool" where
  "is_space c = (c \<in> set [CHR '' '', CHR 0x09, CHR 0x0A, CHR 0x0B, CHR 0x0C, CHR 0x0D])"

text \<open>The exponent after the mantissa, when digits follow the \<^verbatim>\<open>e\<close>; otherwise none is read.\<close>

definition read_exponent :: "string \<Rightarrow> int" where
  "read_exponent s =
     (case s of
        [] \<Rightarrow> 0
      | c # t \<Rightarrow>
          if c = CHR ''e'' \<or> c = CHR ''E'' then
            (let neg = (take 1 t = ''-'');
                 u = (if take 1 t = ''-'' \<or> take 1 t = ''+'' then drop 1 t else t);
                 ds = takeWhile is_digit u
             in if ds = [] then 0 else (if neg then - int (digits_value ds) else int (digits_value ds)))
          else 0)"

definition power10 :: "int \<Rightarrow> rat" where
  "power10 k = (if 0 \<le> k then 10 ^ nat k else 1 / 10 ^ nat (- k))"

definition read_decimal :: "string \<Rightarrow> jsnum" where
  "read_decimal s =
     (let whole = takeWhile is_digit s;
          s1 = dropWhile is_digit s;
          dotted = (take 1 s1 = ''.'');
          frac = (if dotted then takeWhile is_digit (drop 1 s1) else []);
          s2 = (if dotted then dropWhile is_digit (drop 1 s1) else s1)
      in if whole = [] \<and> frac = [] then NaN
         else Finite ((of_nat (digits_value whole) +
                       of_nat (digits_value frac) / 10 ^ length frac) * power10 (read_exponent s2)))"

definition js_parseFloat_string :: "string \<Rightarrow> jsnum" where
  "js_parseFloat_string s =
     (let t = dropWhile is_space s;
          neg = (take 1 t = ''-'');
          u = (if take 1 t = ''-'' \<or> take 1 t = ''+'' then drop 1 t else t)
      in if take 8 u = ''Infinity'' then (if neg then MinusInfinity else PlusInfinity)
         else (case read_decimal u of
                 Finite r \<Rightarrow> Finite (if neg then - r else r)
               | n \<Rightarrow> n))"

text \<open>The text of a number in positional notation, with at most twenty fraction digits.\<close>

fun fraction_digits :: "nat \<Rightarrow> nat \<Rightarrow> nat \<Rightarrow> string" where
  "fraction_digits 0 num den = []"
| "fraction_digits (Suc fuel) num den =
     (if num = 0 then []
      else digit_char (10 * num div den) # fraction_digits fuel (10 * num mod den) den)"

definition positional_text :: "rat \<Rightarrow> string" where
  "positional_text r =
     (let (a, c) = quotient_of r; n = nat \<bar>a\<bar>; m = nat c
      in (if a < 0 then ''-'' else []) @ nat_text (n div m) @
         (if n mod m = 0 then [] else ''.'' @ fraction_digits 20 (n mod m) m))"

subsection \<open>The e-mail test\<close>

text \<open>
  A simplified test in place of the validator's: one \<^verbatim>\<open>@\<close>, a local part, and a domain
  of at least two labels, without spaces.
\<close>

definition simple_isEmail :: "string \<Rightarrow> bool" where
  "simple_isEmail s =
     (let local_part = takeWhile (\<lambda>c. c \<noteq> CHR ''@'') s;
          domain = drop 1 (dropWhile (\<lambda>c. c \<noteq> CHR ''@'') s)
      in local_part \<noteq> [] \<and> CHR ''@'' \<in> set s \<and> CHR ''@'' \<notin> set domain \<and> CHR '' '' \<notin> set s \<and>
         CHR ''.'' \<in> set domain \<and> take 1 domain \<noteq> ''.'' \<and> take 1 (rev domain) \<noteq> ''.'')"

subsection \<open>The environment and sample rows\<close>

definition sample_env :: env where
  "sample_env =
     \<lparr>JWT_SECRET = None, NODE_ENV = None,
      isEmail = simple_isEmail,
      bcrypt_hash = (\<lambda>s. ''$2a$12$'' @ s),
      bcrypt_compare = (\<lambda>s h. h = ''$2a$12$'' @ s),
      parseFloat = js_parseFloat_string,
      number_text = positional_text,
      parse_uuid = pg_uuid,
      database_message = exn_name\<rparr>"

text \<open>Identifiers for the sample rows, and one that names no row.\<close>

definition group_1 :: uuid where
  "group_1 = Uuid ''8a6e0804-2bd0-4672-b79d-d97027f9071a''"

definition user_1 :: uuid where
  "user_1 = Uuid ''f47ac10b-58cc-4372-a567-0e02b2c3d479''"

definition category_1 :: uuid where
  "category_1 = Uuid ''6ba7b810-9dad-41d1-80b4-00c04fd430c8''"

definition product_1 :: uuid where
  "product_1 = Uuid ''7c9e6679-7425-40de-944b-e07fc1f90ae7''"

definition group_2 :: uuid where
  "group_2 = Uuid ''16fd2706-8baf-433b-82eb-8c7fada847da''"

definition user_2 :: uuid where
  "user_2 = Uuid ''e4eaaaf2-d142-41b3-a1f0-4d2f6a3d5c11''"

definition no_such_group :: string where
  "no_such_group = ''0f8fad5b-d9cb-469f-a165-70867728950e''"

text \<open>The payload of the end-to-end scenario.\<close>

definition jan :: body where
  "jan = empty_body(''email'' := JStr ''a@b.com'', ''password'' := JStr ''Str0ng!Pass'',
                    ''firstName'' := JStr ''Jan'', ''lastName'' := JStr ''Peeters'')"

text \<open>A database with one carnival group, one active user and one category.\<close>

definition sample_group :: carnival_group where
  "sample_group =
     \<lparr>cg_id = group_1, cg_name = ''Default Group'', cg_city = ''Brussels'', cg_province = None,
      cg_country = ''Belgium'', cg_description = None, cg_website = None, cg_verified = True,
      cg_createdAt = 0, cg_updatedAt = 0\<rparr>"

definition sample_user :: user where
  "sample_user =
     \<lparr>u_id = user_1, u_email = ''a@b.com'', u_password = ''$2a$12$Str0ng!Pass'',
      u_firstName = ''Jan'', u_lastName = ''Peeters'', u_phone = None,
      u_address = None, u_city = None, u_postalCode = None, u_isVerified = False,
      u_isActive = True, u_lastLoginAt = None, u_carnivalGroupId = group_1,
      u_createdAt = 0, u_updatedAt = 0\<rparr>"

definition sample_category :: category where
  "sample_category =
     \<lparr>cat_id = category_1, cat_name = ''Masks'', cat_slug = ''masks'', cat_description = None,
      cat_emoji = None\<rparr>"

definition sample_db :: db where
  "sample_db =
     \<lparr>groups = [sample_group], users = [sample_user], categories = [sample_category],
      products = []\<rparr>"

text \<open>The same database with the user deactivated.\<close>

definition deactivated_db :: db where
  "deactivated_db = sample_db\<lparr>users := [sample_user\<lparr>u_isActive := False\<rparr>]\<rparr>"

definition sample_token :: token where
  "sample_token = generateToken sample_env 0 user_1"

text \<open>A product payload without a category, one with a price of zero, and a complete one.\<close>

definition mask_without_category :: body where
  "mask_without_category =
     empty_body(''title'' := JStr ''Venetian mask'', ''description'' := JStr ''Hand-painted mask'',
                ''price'' := JNum 25)"

definition mask_for_free :: body where
  "mask_for_free =
     empty_body(''title'' := JStr ''Venetian mask'', ''description'' := JStr ''Hand-painted mask'',
                ''price'' := JNum 0, ''categoryId'' := JStr ''6ba7b810-9dad-41d1-80b4-00c04fd430c8'')"

definition mask :: body where
  "mask =
     empty_body(''title'' := JStr ''Venetian mask'', ''description'' := JStr ''Hand-painted mask'',
                ''price'' := JStr ''25.50'', ''categoryId'' := JStr ''6ba7b810-9dad-41d1-80b4-00c04fd430c8'')"

section \<open>Auxiliary facts\<close>

lemma sample_secret: "secret sample_env = ''carnival-secret-key''"
  by (simp add: secret_def sample_env_def)

lemma find_Some_holds: "find P xs = Some x \<Longrightarrow> P x \<and> x \<in> set xs"
  by (induction xs) (auto split: if_splits)

lemma sample_authenticate:
  "authenticate sample_env 100 (Bearer sample_token) sample_db = Inr sample_user"
  by (simp add: authenticate_def sample_token_def generateToken_def jwt_sign_def jwt_verify_def
      sample_secret seven_days_def User_findByPk_def sample_db_def sample_user_def)

lemma sample_category_id: "parse_uuid sample_env ''6ba7b810-9dad-41d1-80b4-00c04fd430c8'' = Some category_1"
  unfolding sample_env_def category_1_def by simp code_simp

lemma sample_no_such_group: "parse_uuid sample_env no_such_group = Some (Uuid no_such_group)"
  unfolding sample_env_def no_such_group_def by simp code_simp

lemma sample_price: "parseFloat sample_env ''25.50'' = Finite (51 / 2)"
  unfolding sample_env_def by simp code_simp

section \<open>Login\<close>




text \<open>
  The restriction to strings matters. The query for an e-mail that is a number fails,
  and the request is answered 500. bcryptjs throws on a password that is not a string,
  so a number as password is answered 401 for an unknown e-mail and 500 for the e-mail
  of an active user.
\<close>

lemma login_email_not_a_string:
  assumes "b ''email'' = JNum n" and "n \<noteq> 0" and "truthy (b ''password'')"
  shows "login e now b d = (login_catch e (SequelizeDatabaseError [NoOperator ''email'']), d)"
    and "status (fst (login e now b d)) = 500"
  using assms by (simp_all add: login_def User_findOne_email_def login_catch_def reply_def)

lemma login_password_not_a_string:
  assumes "b ''email'' = JStr s" and "s \<noteq> []" and "b ''password'' = JNum n" and "n \<noteq> 0"
  shows "User_findOne_email d (b ''email'') = Inr None \<longrightarrow>
           status (fst (login e now b d)) = 401"
    and "User_findOne_email d (b ''email'') = Inr (Some u) \<longrightarrow> u_isActive u \<longrightarrow>
           status (fst (login e now b d)) = 500"
  using assms
  by (simp_all add: login_def compare_password_def error_reply_def reply_def login_catch_def)

text \<open>
  C9, as stated, at a concrete request: the e-mail resolves to a deactivated user, the
  submitted password is the empty string, and the answer is 400
  \<^verbatim>\<open>Email and password are required\<close>, not 401 \<^verbatim>\<open>Account is deactivated\<close>.
\<close>

theorem login_deactivated_empty_password_counterexample:
  "User_findOne_email deactivated_db (JStr ''a@b.com'') = Inr (Some (sample_user\<lparr>u_isActive := False\<rparr>)) \<and>
   login sample_env 0 (empty_body(''email'' := JStr ''a@b.com'', ''password'' := JStr []))
       deactivated_db =
     (error_reply 400 ''Email and password are required'', deactivated_db)"
  by (simp add: login_def empty_body_def User_findOne_email_def deactivated_db_def sample_db_def
      sample_user_def)

text \<open>
  C9, amended: for every login request with a non-empty e-mail and a non-empty password
  whose e-mail resolves to a user with \<^verbatim>\<open>isActive\<close> false, the answer is 401 with the
  message \<^verbatim>\<open>Account is deactivated\<close>, whatever the password and whatever
  \<^verbatim>\<open>bcrypt.compare\<close> would say of it (the environment \<open>e\<close> is arbitrary), and this answer
  differs from the one given for an unknown e-mail.
\<close>

theorem login_deactivated:
  assumes "truthy (b ''email'')" and "truthy (b ''password'')"
    and "User_findOne_email d (b ''email'') = Inr (Some u)" and "\<not> u_isActive u"
  shows "login e now b d = (error_reply 401 ''Account is deactivated'', d) \<and>
         error_reply 401 ''Account is deactivated'' \<noteq> error_reply 401 ''Invalid email or password''"
  using assms by (simp add: login_def error_reply_def reply_def)

theorem login_deactivated_witness:
  "login sample_env 7 (empty_body(''email'' := JStr ''a@b.com'',
                                  ''password'' := JStr ''Str0ng!Pass'')) deactivated_db =
     (error_reply 401 ''Account is deactivated'', deactivated_db) \<and>
   login sample_env 7 (empty_body(''email'' := JStr ''a@b.com'',
                                  ''password'' := JStr ''guess'')) deactivated_db =
     (error_reply 401 ''Account is deactivated'', deactivated_db)"
  using login_deactivated [of "empty_body(''email'' := JStr ''a@b.com'',
            ''password'' := JStr ''Str0ng!Pass'')" deactivated_db
          "sample_user\<lparr>u_isActive := False\<rparr>" sample_env 7]
        login_deactivated [of "empty_body(''email'' := JStr ''a@b.com'',
            ''password'' := JStr ''guess'')" deactivated_db
          "sample_user\<lparr>u_isActive := False\<rparr>" sample_env 7]
  by (simp add: empty_body_def User_findOne_email_def deactivated_db_def sample_db_def
      sample_user_def)

section \<open>Creating a product\<close>

text \<open>
  C10: for every authenticated POST /api/products request whose price is falsy (the
  number 0, the empty string, null, false, or no price at all), the answer is 400 with
  the message \<^verbatim>\<open>Title, description, price, and category are required\<close> and the database
  is as before: \<^verbatim>\<open>Product.create\<close> and its price validation are not reached.
\<close>

theorem zero_price_rejected:
  assumes "authenticate e now authHeader d = Inr reqUser" and "\<not> truthy (b ''price'')"
  shows "post_products e now newId authHeader b d =
           (error_reply 400 ''Title, description, price, and category are required'', d)"
  using assms by (simp add: post_products_def create_product_def)

theorem zero_price_rejected_witness:
  "post_products sample_env 100 product_1 (Bearer sample_token) mask_for_free sample_db =
     (error_reply 400 ''Title, description, price, and category are required'', sample_db) \<and>
   post_products sample_env 100 product_1 (Bearer sample_token) (mask(''price'' := JStr []))
       sample_db =
     (error_reply 400 ''Title, description, price, and category are required'', sample_db)"
  using zero_price_rejected [OF sample_authenticate, of mask_for_free product_1]
        zero_price_rejected [OF sample_authenticate, of "mask(''price'' := JStr [])" product_1]
  by (simp add: mask_for_free_def mask_def empty_body_def)

text \<open>
  C8, on the code: for every authenticated POST /api/products request whose body lacks a
  categoryId (or has a falsy one), the answer is 400 with the message
  \<^verbatim>\<open>Title, description, price, and category are required\<close> and no product is created,
  whether or not a category exists. The guard of line 93 returns before the branch of
  lines 99 to 107, which would take the first category as the default, can be reached.
\<close>

theorem missing_category_rejected:
  assumes "authenticate e now authHeader d = Inr reqUser" and "\<not> truthy (b ''categoryId'')"
  shows "post_products e now newId authHeader b d =
           (error_reply 400 ''Title, description, price, and category are required'', d)"
  using assms by (simp add: post_products_def create_product_def)

theorem missing_category_rejected_witness:
  "Category_findOne sample_db = Some sample_category \<and>
   authenticate sample_env 100 (Bearer sample_token) sample_db = Inr sample_user \<and>
   post_products sample_env 100 product_1 (Bearer sample_token) mask_without_category sample_db =
     (error_reply 400 ''Title, description, price, and category are required'', sample_db)"
  using missing_category_rejected [OF sample_authenticate, of mask_without_category product_1]
  by (simp add: mask_without_category_def empty_body_def sample_authenticate)
     (simp add: Category_findOne_def sample_db_def)

section \<open>Tokens\<close>

lemma generateToken_verify:
  "jwt_verify (generateToken e now userId) (secret e) t =
     (if now + seven_days \<le> t then Inl TokenExpiredError else Inr userId)"
  by (simp add: generateToken_def jwt_sign_def jwt_verify_def)

text \<open>
  C7: for every user identifier, the token that \<^verbatim>\<open>generateToken\<close> issues at time \<open>now\<close>
  is accepted by the verification at every time strictly before \<open>now\<close> plus seven days,
  and resolves to that identifier; GET /api/auth/me then goes on to load that user. At
  every time strictly after that boundary the verification reports expiry and
  GET /api/auth/me answers 401 \<^verbatim>\<open>Token expired\<close>, which is not the answer 401
  \<^verbatim>\<open>Invalid token\<close> given for a malformed token or a token signed with another secret.
\<close>

theorem token_roundtrip_until_expiry:
  "(t < now + seven_days \<longrightarrow>
      jwt_verify (generateToken e now userId) (secret e) t = Inr userId \<and>
      me e t (Bearer (generateToken e now userId)) d =
        (case User_findByPk d userId of
           None \<Rightarrow> error_reply 401 ''User not found''
         | Some user \<Rightarrow> reply 200 [(''user'', User_findByPk_public d userId)])) \<and>
   (now + seven_days < t \<longrightarrow>
      jwt_verify (generateToken e now userId) (secret e) t = Inl TokenExpiredError \<and>
      me e t (Bearer (generateToken e now userId)) d = error_reply 401 ''Token expired'') \<and>
   me e t (Bearer (Garbage s)) d = error_reply 401 ''Invalid token'' \<and>
   (k \<noteq> secret e \<longrightarrow> me e t (Bearer (Signed otherId k issued expires)) d = error_reply 401 ''Invalid token'') \<and>
   error_reply 401 ''Token expired'' \<noteq> error_reply 401 ''Invalid token''"
  by (simp add: generateToken_verify me_def) (simp add: jwt_verify_def error_reply_def reply_def)

theorem token_roundtrip_until_expiry_witness:
  "jwt_verify (generateToken sample_env 1000 user_1) (secret sample_env) (1000 + 604799) = Inr user_1 \<and>
   me sample_env (1000 + 604799) (Bearer (generateToken sample_env 1000 user_1)) sample_db =
     reply 200 [(''user'', User_findByPk_public sample_db user_1)] \<and>
   me sample_env (1000 + 604801) (Bearer (generateToken sample_env 1000 user_1)) sample_db =
     error_reply 401 ''Token expired'' \<and>
   me sample_env 1000 (Bearer (Signed user_1 ''guessed-secret'' 0 5000)) sample_db =
     error_reply 401 ''Invalid token''"
  using token_roundtrip_until_expiry [of "1000 + 604799" 1000 sample_env user_1 sample_db "''x''" "''guessed-secret''" user_1 0 5000]
        token_roundtrip_until_expiry [of "1000 + 604801" 1000 sample_env user_1 sample_db "''x''" "''guessed-secret''" user_1 0 5000]
        token_roundtrip_until_expiry [of "1000" 1000 sample_env user_1 sample_db "''x''" "''guessed-secret''" user_1 0 5000]
  by (simp add: seven_days_def sample_secret User_findByPk_def sample_db_def sample_user_def)

text \<open>
  The \<^verbatim>\<open>authenticate\<close> middleware of routes/products.js has one answer for every error
  of the verification: an expired token gets 401 \<^verbatim>\<open>Invalid token\<close> there.
\<close>

lemma authenticate_expired:
  "now + seven_days \<le> t \<Longrightarrow>
   authenticate e t (Bearer (generateToken e now userId)) d = Inl (error_reply 401 ''Invalid token'')"
  by (simp add: authenticate_def generateToken_verify)

section \<open>The seller of a product\<close>

lemma authenticate_Inr:
  "authenticate e now (Bearer tok) d = Inr reqUser \<Longrightarrow> jwt_verify tok (secret e) now = Inr userId \<Longrightarrow>
   u_id reqUser = userId"
  by (auto simp: authenticate_def User_findByPk_def split: sum.splits option.splits dest: find_Some_holds)

lemma Product_create_Inr:
  "Product_create e now newId v d = Inr (p, d') \<Longrightarrow>
   products d' = products d @ [p] \<and> p_sellerId p = pv_sellerId v \<and> p_id p = newId \<and>
   users d' = users d \<and> groups d' = groups d \<and> categories d' = categories d"
  by (auto simp: Product_create_def Let_def split: if_splits option.splits)

lemma create_product_effect:
  "create_product e now newId reqUser b d = (res, d') \<Longrightarrow>
   (d' = d \<and> status res \<noteq> 201) \<or>
   (\<exists>p. products d' = products d @ [p] \<and> p_sellerId p = u_id reqUser \<and> p_id p = newId \<and>
        users d' = users d \<and> status res = 201)"
  by (auto simp: create_product_def Let_def error_reply_def reply_def
           split: if_splits sum.splits prod.splits dest!: Product_create_Inr)

lemma create_product_sellerId_ignored:
  "create_product e now newId reqUser (b(''sellerId'' := v)) d = create_product e now newId reqUser b d"
  by (simp add: create_product_def)

text \<open>
  C3: a \<^verbatim>\<open>sellerId\<close> in the body of POST /api/products has no influence: two bodies that
  differ only in that field give the same response and the same database. When the
  caller's bearer token decodes to \<open>userId\<close>, a 201 response means that exactly one
  product was appended and its \<^verbatim>\<open>sellerId\<close> is \<open>userId\<close>, and every product the request
  adds has that \<^verbatim>\<open>sellerId\<close>.
\<close>

theorem post_products_seller_is_caller:
  "post_products e now newId authHeader (b(''sellerId'' := v)) d =
     post_products e now newId authHeader b d \<and>
   (jwt_verify tok (secret e) now = Inr userId \<longrightarrow>
    post_products e now newId (Bearer tok) b d = (res, d') \<longrightarrow>
      (status res = 201 \<longrightarrow> (\<exists>p. products d' = products d @ [p] \<and> p_sellerId p = userId)) \<and>
      (\<forall>p \<in> set (products d') - set (products d). p_sellerId p = userId))"
proof -
  have indep: "post_products e now newId authHeader (b(''sellerId'' := v)) d =
      post_products e now newId authHeader b d"
    by (simp add: post_products_def create_product_sellerId_ignored split: sum.splits)
  have seller: "(status res = 201 \<longrightarrow> (\<exists>p. products d' = products d @ [p] \<and> p_sellerId p = userId)) \<and>
      (\<forall>p \<in> set (products d') - set (products d). p_sellerId p = userId)"
    if v: "jwt_verify tok (secret e) now = Inr userId"
      and r: "post_products e now newId (Bearer tok) b d = (res, d')"
  proof (cases "authenticate e now (Bearer tok) d")
    case (Inl a)
    with r v have "d' = d" "status res \<noteq> 201"
      by (auto simp: post_products_def authenticate_def error_reply_def reply_def split: option.splits)
    then show ?thesis by simp
  next
    case (Inr reqUser)
    from Inr v have "u_id reqUser = userId" by (rule authenticate_Inr)
    moreover from Inr r have "create_product e now newId reqUser b d = (res, d')"
      by (simp add: post_products_def)
    ultimately show ?thesis
      using create_product_effect [of e now newId reqUser b d res d'] by auto
  qed
  from indep seller show ?thesis by blast
qed

theorem post_products_seller_is_caller_witness:
  "jwt_verify sample_token (secret sample_env) 100 = Inr user_1 \<and>
   status (fst (post_products sample_env 100 product_1 (Bearer sample_token) mask sample_db)) = 201 \<and>
   (\<exists>p. products (snd (post_products sample_env 100 product_1 (Bearer sample_token) mask sample_db)) =
          products sample_db @ [p] \<and> p_sellerId p = user_1) \<and>
   post_products sample_env 100 product_1 (Bearer sample_token)
       (mask(''sellerId'' := JStr ''e4eaaaf2-d142-41b3-a1f0-4d2f6a3d5c11'')) sample_db =
     post_products sample_env 100 product_1 (Bearer sample_token) mask sample_db"
proof -
  have v: "jwt_verify sample_token (secret sample_env) 100 = Inr user_1"
    by (simp add: sample_token_def generateToken_def jwt_sign_def jwt_verify_def seven_days_def)
  have s: "status (fst (post_products sample_env 100 product_1 (Bearer sample_token) mask sample_db)) = 201"
    by (simp add: post_products_def sample_authenticate)
       (simp add: create_product_def mask_def empty_body_def js_parseFloat_def sample_price
        sample_category_id
        Product_create_def Product_validate_def Product_faults_def not_null_def is_null_def
        reference_not_null_def reference_faults_def reference_def column_text_def
        varchar_faults_def text_faults_def nullable_varchar_faults_def nullable_text_def
        price_faults_def cents_def js_or_def conditions_def
        sample_db_def sample_user_def sample_category_def reply_def Let_def)
  from v s post_products_seller_is_caller [of sample_env 100 product_1 "Bearer sample_token" mask
      "JStr ''e4eaaaf2-d142-41b3-a1f0-4d2f6a3d5c11''" sample_db sample_token user_1
      "fst (post_products sample_env 100 product_1 (Bearer sample_token) mask sample_db)"
      "snd (post_products sample_env 100 product_1 (Bearer sample_token) mask sample_db)"]
  show ?thesis by simp
qed

section \<open>Registration\<close>

lemma find_append_fresh:
  "k \<notin> set (map f xs) \<Longrightarrow> f y = k \<Longrightarrow> find (\<lambda>x. f x = k) (xs @ [y]) = Some y"
  by (induction xs) auto

lemma varchar_faults_fits: "fits_varchar s \<Longrightarrow> varchar_faults column s = []"
  by (simp add: varchar_faults_def text_faults_def fits_varchar_def fits_text_def)

lemma required_varcharD:
  assumes "required_varchar v"
  obtains s where "v = JStr s" "s \<noteq> []" "fits_varchar s"
  using assms by (cases v) (simp_all add: required_varchar_def)

lemma optional_varchar_faults:
  "optional_varchar v \<Longrightarrow> nullable_varchar_faults column (nullable_text e (js_or v JNull)) = []"
  by (cases v)
     (auto simp: optional_varchar_def js_or_def nullable_text_def is_null_def column_text_def
        nullable_varchar_faults_def varchar_faults_fits)

lemma optional_text_faults:
  "optional_text v \<Longrightarrow> nullable_text_faults column (nullable_text e (js_or v JNull)) = []"
  by (cases v)
     (auto simp: optional_text_def js_or_def nullable_text_def is_null_def column_text_def
        nullable_text_faults_def text_faults_def fits_text_def)

lemma valid_registrationD:
  assumes "valid_registration e b"
  obtains s p where "b ''email'' = JStr s" "s \<noteq> []" "fits_varchar s" "isEmail e s"
    "b ''password'' = JStr p" "p \<noteq> []"
    "required_varchar (b ''firstName'')" "required_varchar (b ''lastName'')"
  using assms by (auto simp: valid_registration_def split: jsval.splits)

text \<open>A group reference that \<^verbatim>\<open>User.create\<close> can use: not null, and the identifier of a row.\<close>

lemma register_values_accepted:
  assumes valid: "valid_registration e b"
    and ref: "reference e g = Some gid" and nn: "reference_not_null ''User'' ''carnivalGroupId'' g = []"
  shows "User_validate e (register_values b g h) = []"
    and "User_faults e (register_values b g h) = []"
proof -
  from valid obtain s p where b: "b ''email'' = JStr s" "s \<noteq> []" "fits_varchar s" "isEmail e s"
      "b ''password'' = JStr p" "p \<noteq> []"
      "required_varchar (b ''firstName'')" "required_varchar (b ''lastName'')"
    by (rule valid_registrationD)
  from b(7) obtain f where f: "b ''firstName'' = JStr f" "f \<noteq> []" "fits_varchar f"
    by (rule required_varcharD)
  from b(8) obtain l where l: "b ''lastName'' = JStr l" "l \<noteq> []" "fits_varchar l"
    by (rule required_varcharD)
  from valid have opt: "optional_varchar (b ''phone'')" "optional_text (b ''address'')"
      "optional_varchar (b ''city'')" "optional_varchar (b ''postalCode'')"
    by (simp_all add: valid_registration_def)
  from b f l nn show "User_validate e (register_values b g h) = []"
    by (simp add: User_validate_def register_values_def not_null_def is_null_def column_text_def)
  from b f l ref opt show "User_faults e (register_values b g h) = []"
    by (simp add: User_faults_def register_values_def column_text_def varchar_faults_fits
        optional_varchar_faults optional_text_faults reference_faults_def)
qed

lemma resolve_group_resolvable:
  assumes "group_resolvable e d b"
  shows "\<exists>g gid d1. resolve_group e now newGroupId (b ''carnivalGroupId'') d = (Inr g, d1) \<and>
           reference e g = Some gid \<and> reference_not_null ''User'' ''carnivalGroupId'' g = [] \<and>
           gid \<in> set (map cg_id (groups d1)) \<and> users d1 = users d \<and>
           products d1 = products d \<and> categories d1 = categories d \<and>
           (groups d \<noteq> [] \<longrightarrow> d1 = d)"
proof (cases "truthy (b ''carnivalGroupId'')")
  case False
  then show ?thesis
    by (cases "groups d")
       (simp_all add: resolve_group_def CarnivalGroup_findOne_def CarnivalGroup_create_def Let_def
          reference_def reference_not_null_def)
next
  case True
  show ?thesis
  proof (cases "CarnivalGroup_findByPk e d (b ''carnivalGroupId'')")
    case (Inl err)
    with assms True show ?thesis by (simp add: group_resolvable_def)
  next
    case (Inr found)
    show ?thesis
    proof (cases found)
      case None
      with assms True Inr have "groups d \<noteq> []" by (simp add: group_resolvable_def)
      with True Inr None show ?thesis
        by (cases "groups d")
           (simp_all add: resolve_group_def CarnivalGroup_findOne_def reference_def
              reference_not_null_def)
    next
      case (Some grp)
      with Inr obtain s where s: "b ''carnivalGroupId'' = JStr s" "parse_uuid e s = Some (cg_id grp)"
          "grp \<in> set (groups d)"
        by (auto simp: CarnivalGroup_findByPk_def split: jsval.splits option.splits
              dest: find_Some_holds)
      with True Inr Some show ?thesis
        by (simp add: resolve_group_def reference_def reference_not_null_def not_null_def
            is_null_def column_text_def)
    qed
  qed
qed

lemma exclude_password: "map_of (exclude [''password''] kvs @ [(''CarnivalGroup'', g)]) ''password'' = None"
  by (induction kvs) (auto simp: exclude_def)

lemma public_user_fields:
  "map_of (exclude [''password''] (User_toJSON u) @ [(''CarnivalGroup'', g)]) ''id'' = Some (id_json (u_id u)) \<and>
   map_of (exclude [''password''] (User_toJSON u) @ [(''CarnivalGroup'', g)]) ''email'' = Some (JV (JStr (u_email u))) \<and>
   map_of (exclude [''password''] (User_toJSON u) @ [(''CarnivalGroup'', g)]) ''CarnivalGroup'' = Some g"
  by (simp add: exclude_def User_toJSON_def)

lemma User_findByPk_public_appended:
  "newUserId \<notin> set (map u_id (users d)) \<Longrightarrow> u_id u = newUserId \<Longrightarrow> users d' = users d @ [u] \<Longrightarrow>
   User_findByPk_public d' newUserId =
     JObject (exclude [''password''] (User_toJSON u) @
              [(''CarnivalGroup'', include_CarnivalGroup d' (u_carnivalGroupId u))])"
  by (simp add: User_findByPk_public_def User_findByPk_def find_append_fresh)

lemma User_create_Inr:
  "User_create e now newId v d = Inr (u, d') \<Longrightarrow>
   d' = d\<lparr>users := users d @ [u]\<rparr> \<and> u_email u = column_text e (v_email v) \<and> u_id u = newId \<and>
   u_password u = v_password v \<and> reference e (v_carnivalGroupId v) = Some (u_carnivalGroupId u) \<and>
   u_carnivalGroupId u \<in> set (map cg_id (groups d)) \<and>
   column_text e (v_email v) \<notin> set (map u_email (users d)) \<and> newId \<notin> set (map u_id (users d))"
  by (auto simp: User_create_def Let_def split: if_splits option.splits)

lemma User_create_accepted:
  assumes "User_validate e v = []" and "User_faults e v = []"
    and "reference e (v_carnivalGroupId v) = Some gid" and "gid \<in> set (map cg_id (groups d))"
    and "newId \<notin> set (map u_id (users d))"
    and "column_text e (v_email v) \<notin> set (map u_email (users d))"
  shows "\<exists>u. User_create e now newId v d = Inr (u, d\<lparr>users := users d @ [u]\<rparr>)"
  using assms by (simp add: User_create_def Let_def)

lemma register_success:
  assumes valid: "valid_registration e b"
    and unused: "User_findOne_email d (b ''email'') = Inr None"
    and fresh: "newUserId \<notin> set (map u_id (users d))"
    and group: "group_resolvable e d b"
  shows "\<exists>g gid d1 u. resolve_group e now newGroupId (b ''carnivalGroupId'') d = (Inr g, d1) \<and>
           reference e g = Some gid \<and> gid \<in> set (map cg_id (groups d1)) \<and>
           users d1 = users d \<and> (groups d \<noteq> [] \<longrightarrow> d1 = d) \<and>
           u_id u = newUserId \<and> b ''email'' = JStr (u_email u) \<and> u_carnivalGroupId u = gid \<and>
           register e now newGroupId newUserId b d =
             (registered_reply (generateToken e now newUserId)
                (JObject (exclude [''password''] (User_toJSON u) @
                   [(''CarnivalGroup'', include_CarnivalGroup (d1\<lparr>users := users d @ [u]\<rparr>) gid)])),
              d1\<lparr>users := users d @ [u]\<rparr>)"
proof -
  from valid obtain s p where b: "b ''email'' = JStr s" "s \<noteq> []" "fits_varchar s" "isEmail e s"
      "b ''password'' = JStr p" "p \<noteq> []"
      "required_varchar (b ''firstName'')" "required_varchar (b ''lastName'')"
    by (rule valid_registrationD)
  from b(7) obtain f where f: "b ''firstName'' = JStr f" "f \<noteq> []"
    by (rule required_varcharD)
  from b(8) obtain l where l: "b ''lastName'' = JStr l" "l \<noteq> []"
    by (rule required_varcharD)
  from resolve_group_resolvable [OF group, of now newGroupId]
  obtain g gid d1 where g: "resolve_group e now newGroupId (b ''carnivalGroupId'') d = (Inr g, d1)"
      "reference e g = Some gid" "reference_not_null ''User'' ''carnivalGroupId'' g = []"
      "gid \<in> set (map cg_id (groups d1))" "users d1 = users d" "groups d \<noteq> [] \<longrightarrow> d1 = d"
    by blast
  let ?v = "register_values b g (bcrypt_hash e p)"
  have acc: "User_validate e ?v = []" "User_faults e ?v = []"
    using register_values_accepted [OF valid g(2,3)] by simp_all
  have v: "v_email ?v = JStr s" "v_carnivalGroupId ?v = g"
    using b(1) by (simp_all add: register_values_def)
  from unused b have "s \<notin> set (map u_email (users d))"
    by (auto simp: User_findOne_email_def find_None_iff)
  with g(5) fresh v
  have free: "newUserId \<notin> set (map u_id (users d1))"
      "column_text e (v_email ?v) \<notin> set (map u_email (users d1))"
    by (simp_all add: column_text_def)
  have "\<exists>u. User_create e now newUserId ?v d1 = Inr (u, d1\<lparr>users := users d1 @ [u]\<rparr>)"
    by (rule User_create_accepted [OF acc _ g(4) free]) (simp add: v g(2))
  then obtain u where u: "User_create e now newUserId ?v d1 = Inr (u, d1\<lparr>users := users d1 @ [u]\<rparr>)"
    by blast
  from User_create_Inr [OF u] v g(2)
  have up: "u_id u = newUserId" "u_email u = s" "u_carnivalGroupId u = gid"
    by (simp_all add: column_text_def)
  from fresh up(1) g(5)
  have pub: "User_findByPk_public (d1\<lparr>users := users d @ [u]\<rparr>) newUserId =
      JObject (exclude [''password''] (User_toJSON u) @
               [(''CarnivalGroup'', include_CarnivalGroup (d1\<lparr>users := users d @ [u]\<rparr>) (u_carnivalGroupId u))])"
    by (intro User_findByPk_public_appended) simp_all
  from b f l unused g(1,5) u up pub
  have "register e now newGroupId newUserId b d =
             (registered_reply (generateToken e now newUserId)
                (JObject (exclude [''password''] (User_toJSON u) @
                   [(''CarnivalGroup'', include_CarnivalGroup (d1\<lparr>users := users d @ [u]\<rparr>) gid)])),
              d1\<lparr>users := users d @ [u]\<rparr>)"
    by (simp add: register_def register_try_def hash_password_def)
  with g up b(1) show ?thesis
    by (intro exI [of _ g] exI [of _ gid] exI [of _ d1] exI [of _ u]) simp
qed

lemma resolve_group_keeps:
  "resolve_group e now newGroupId v d = (x, d1) \<Longrightarrow>
   users d1 = users d \<and> products d1 = products d \<and> categories d1 = categories d"
  by (auto simp: resolve_group_def CarnivalGroup_create_def Let_def
           split: if_splits option.splits sum.splits)

lemma register_catch_status:
  "status (register_catch e err) = 400 \<or> status (register_catch e err) = 500"
  by (simp add: register_catch_def reply_def error_reply_def)

lemma register_catch_not_201: "status (register_catch e err) \<noteq> 201"
  by (simp add: register_catch_def reply_def error_reply_def)

lemma register_try_effect:
  assumes "register_try e now newGroupId newUserId b d = (x, d')"
  shows "products d' = products d \<and>
    (case x of
       Inl err \<Rightarrow> users d' = users d
     | Inr res \<Rightarrow>
         (users d' = users d \<and> status res = 400) \<or>
         (\<exists>u. users d' = users d @ [u] \<and> u_email u = column_text e (b ''email'') \<and>
              u_id u = newUserId \<and>
              column_text e (b ''email'') \<notin> set (map u_email (users d)) \<and>
              newUserId \<notin> set (map u_id (users d)) \<and>
              res = registered_reply (generateToken e now newUserId)
                      (User_findByPk_public d' newUserId)))"
proof (cases "\<not> truthy (b ''email'') \<or> \<not> truthy (b ''password'') \<or>
         \<not> truthy (b ''firstName'') \<or> \<not> truthy (b ''lastName'')")
  case True
  with assms show ?thesis by (auto simp: register_try_def error_reply_def reply_def)
next
  case guard: False
  show ?thesis
  proof (cases "User_findOne_email d (b ''email'')")
    case (Inl err)
    with assms guard show ?thesis by (auto simp: register_try_def)
  next
    case (Inr found)
    show ?thesis
    proof (cases found)
      case (Some a)
      with assms guard Inr show ?thesis by (auto simp: register_try_def error_reply_def reply_def)
    next
      case None
      obtain g d1 where rg: "resolve_group e now newGroupId (b ''carnivalGroupId'') d = (g, d1)"
        by (cases "resolve_group e now newGroupId (b ''carnivalGroupId'') d")
      then have keep: "users d1 = users d" "products d1 = products d"
        by (auto dest: resolve_group_keeps)
      from assms guard Inr None rg keep show ?thesis
        by (auto simp: register_try_def register_values_def split: sum.splits
              dest!: User_create_Inr)
    qed
  qed
qed

lemma register_effect:
  assumes "register e now newGroupId newUserId b d = (res, d')"
  shows "products d' = products d \<and>
         ((users d' = users d \<and> status res \<noteq> 201) \<or>
          (\<exists>u. users d' = users d @ [u] \<and> u_email u = column_text e (b ''email'') \<and>
               u_id u = newUserId \<and>
               column_text e (b ''email'') \<notin> set (map u_email (users d)) \<and>
               newUserId \<notin> set (map u_id (users d)) \<and>
               res = registered_reply (generateToken e now newUserId)
                       (User_findByPk_public d' newUserId)))"
proof -
  obtain x d1 where t: "register_try e now newGroupId newUserId b d = (x, d1)"
    by (cases "register_try e now newGroupId newUserId b d")
  from register_try_effect [OF t] t assms show ?thesis
    by (cases x) (auto simp: register_def register_catch_not_201)
qed

text \<open>
  The body of every 201 response of the handler holds the token of the new user and a
  user object without a \<^verbatim>\<open>password\<close> property.
\<close>

lemma register_201_body:
  assumes "status (fst (register e now newGroupId newUserId b d)) = 201"
  shows "reply_field (fst (register e now newGroupId newUserId b d)) ''token'' =
           Some (JToken (generateToken e now newUserId)) \<and>
         (\<exists>kvs. reply_field (fst (register e now newGroupId newUserId b d)) ''user'' = Some (JObject kvs) \<and>
                map_of kvs ''password'' = None \<and> map_of kvs ''id'' = Some (id_json newUserId))"
proof -
  obtain res d' where r: "register e now newGroupId newUserId b d = (res, d')"
    by (cases "register e now newGroupId newUserId b d")
  with assms register_effect [OF r] obtain u where u: "users d' = users d @ [u]"
      "u_id u = newUserId" "newUserId \<notin> set (map u_id (users d))"
      "res = registered_reply (generateToken e now newUserId) (User_findByPk_public d' newUserId)"
    by auto
  from u(3,2,1) have pub: "User_findByPk_public d' newUserId =
     JObject (exclude [''password''] (User_toJSON u) @
              [(''CarnivalGroup'', include_CarnivalGroup d' (u_carnivalGroupId u))])"
    by (rule User_findByPk_public_appended)
  let ?kvs = "exclude [''password''] (User_toJSON u) @
              [(''CarnivalGroup'', include_CarnivalGroup d' (u_carnivalGroupId u))]"
  from r u(4) pub
  have "reply_field (fst (register e now newGroupId newUserId b d)) ''token'' =
           Some (JToken (generateToken e now newUserId))"
    "reply_field (fst (register e now newGroupId newUserId b d)) ''user'' = Some (JObject ?kvs)"
    by (simp_all add: reply_field_def reply_def registered_reply_def)
  moreover have "map_of ?kvs ''password'' = None"
    by (rule exclude_password)
  moreover from public_user_fields [of u "include_CarnivalGroup d' (u_carnivalGroupId u)"] u(2)
  have "map_of ?kvs ''id'' = Some (id_json newUserId)"
    by simp
  ultimately show ?thesis by blast
qed

lemma register_alt_public_user:
  assumes "status (fst (register_alt e now newUserId b d)) = 201"
  shows "\<exists>tok kvs. reply_field (fst (register_alt e now newUserId b d)) ''token'' = Some (JToken tok) \<and>
           reply_field (fst (register_alt e now newUserId b d)) ''user'' = Some (JObject kvs) \<and>
           map fst kvs = [''id'', ''email'', ''firstName'', ''lastName'']"
  using assms
  by (auto simp: register_alt_def register_alt_try_def Let_def reply_def error_reply_def
        reply_field_def split: if_splits option.splits sum.splits prod.splits)

subsection \<open>A named carnival group that does not exist\<close>

lemma resolve_group_without_groups:
  assumes "truthy v" and "groups d = []"
  shows "resolve_group e now newGroupId v d =
           (case CarnivalGroup_findByPk e d v of
              Inl err \<Rightarrow> (Inl err, d)
            | Inr found \<Rightarrow> (Inr (Inl JNull), d))"
proof (cases "CarnivalGroup_findByPk e d v")
  case (Inl err)
  with assms show ?thesis by (simp add: resolve_group_def)
next
  case (Inr found)
  with assms(2) have "found = None"
    by (auto simp: CarnivalGroup_findByPk_def split: jsval.splits option.splits)
  with Inr assms show ?thesis
    by (simp add: resolve_group_def CarnivalGroup_findOne_def)
qed

lemma User_create_null_group:
  assumes "valid_registration e b"
  shows "User_create e now newUserId (register_values b (Inl JNull) h) d =
           Inl (SequelizeValidationError [NotNullViolation ''User'' ''carnivalGroupId''])"
proof -
  from assms obtain s p where b: "b ''email'' = JStr s" "s \<noteq> []" "fits_varchar s" "isEmail e s"
      "b ''password'' = JStr p" "p \<noteq> []"
      "required_varchar (b ''firstName'')" "required_varchar (b ''lastName'')"
    by (rule valid_registrationD)
  from b(7) obtain f where f: "b ''firstName'' = JStr f" "f \<noteq> []"
    by (rule required_varcharD)
  from b(8) obtain l where l: "b ''lastName'' = JStr l" "l \<noteq> []"
    by (rule required_varcharD)
  from b f l have "User_validate e (register_values b (Inl JNull) h) =
      [NotNullViolation ''User'' ''carnivalGroupId'']"
    by (simp add: User_validate_def register_values_def not_null_def reference_not_null_def
        is_null_def column_text_def)
  then show ?thesis by (simp add: User_create_def)
qed

lemma register_without_resolved_group:
  assumes valid: "valid_registration e b" and unused: "User_findOne_email d (b ''email'') = Inr None"
    and named: "truthy (b ''carnivalGroupId'')" and none: "groups d = []"
  shows "register_try e now newGroupId newUserId b d =
           (case CarnivalGroup_findByPk e d (b ''carnivalGroupId'') of
              Inl err \<Rightarrow> (Inl err, d)
            | Inr found \<Rightarrow>
                (Inl (SequelizeValidationError [NotNullViolation ''User'' ''carnivalGroupId'']), d))"
proof -
  from valid obtain s p where b: "b ''email'' = JStr s" "s \<noteq> []" "fits_varchar s" "isEmail e s"
      "b ''password'' = JStr p" "p \<noteq> []"
      "required_varchar (b ''firstName'')" "required_varchar (b ''lastName'')"
    by (rule valid_registrationD)
  from b(7) obtain f where f: "b ''firstName'' = JStr f" "f \<noteq> []"
    by (rule required_varcharD)
  from b(8) obtain l where l: "b ''lastName'' = JStr l" "l \<noteq> []"
    by (rule required_varcharD)
  from b f l unused show ?thesis
    by (simp add: register_try_def resolve_group_without_groups [OF named none]
        hash_password_def User_create_null_group [OF valid] split: sum.splits)
qed

text \<open>
  C6, on the code: the payload is valid, the e-mail is not in use, the payload names a
  carnival group, and the table of carnival groups is empty. The handler does not create
  \<^verbatim>\<open>Default Group\<close>. When the named identifier is not a UUID the look-up of line 75
  fails and the answer is 500. Otherwise the handler sets the group identifier to null
  (line 79), \<^verbatim>\<open>User.create\<close> rejects the null, and the request is answered 400
  \<^verbatim>\<open>Validation error\<close> with the detail \<^verbatim>\<open>User.carnivalGroupId cannot be null\<close>. In both
  cases the database is as before, without a group and without the user.
\<close>

theorem register_unknown_group_without_groups:
  assumes "valid_registration e b" and "User_findOne_email d (b ''email'') = Inr None"
    and "truthy (b ''carnivalGroupId'')" and "groups d = []"
  shows "register e now newGroupId newUserId b d =
           ((case CarnivalGroup_findByPk e d (b ''carnivalGroupId'') of
               Inl err \<Rightarrow>
                 reply 500 [(''error'', JV (JStr ''Server error during registration'')),
                            (''details'', JV (JStr (if NODE_ENV e = Some ''development''
                                                    then error_message e err
                                                    else ''Internal server error'')))]
             | Inr found \<Rightarrow>
                 reply 400 [(''error'', JV (JStr ''Validation error'')),
                            (''details'', JArray [JV (JStr ''User.carnivalGroupId cannot be null'')])]),
            d)"
proof (cases "CarnivalGroup_findByPk e d (b ''carnivalGroupId'')")
  case (Inl err)
  then have "exn_name err = ''SequelizeDatabaseError''"
    by (auto simp: CarnivalGroup_findByPk_def split: jsval.splits option.splits)
  with Inl register_without_resolved_group [OF assms, of now newGroupId newUserId] show ?thesis
    by (simp add: register_def register_catch_def)
next
  case (Inr found)
  with register_without_resolved_group [OF assms, of now newGroupId newUserId] show ?thesis
    by (simp add: register_def register_catch_def)
qed

theorem register_unknown_group_without_groups_witness:
  "register sample_env 0 group_1 user_1 (jan(''carnivalGroupId'' := JStr no_such_group)) empty_db =
     (reply 400 [(''error'', JV (JStr ''Validation error'')),
                 (''details'', JArray [JV (JStr ''User.carnivalGroupId cannot be null'')])],
      empty_db)"
proof -
  have "valid_registration sample_env (jan(''carnivalGroupId'' := JStr no_such_group))"
    by (simp add: valid_registration_def jan_def empty_body_def sample_env_def
        required_varchar_def optional_varchar_def optional_text_def fits_varchar_def fits_text_def
        simple_isEmail_def)
  moreover have "User_findOne_email empty_db
      ((jan(''carnivalGroupId'' := JStr no_such_group)) ''email'') = Inr None"
    by (simp add: User_findOne_email_def empty_db_def jan_def empty_body_def)
  moreover have "groups empty_db = []"
    by (simp add: empty_db_def)
  moreover have "truthy ((jan(''carnivalGroupId'' := JStr no_such_group)) ''carnivalGroupId'')"
    by (simp add: no_such_group_def)
  moreover have "CarnivalGroup_findByPk sample_env empty_db (JStr no_such_group) = Inr None"
    by (simp add: CarnivalGroup_findByPk_def sample_no_such_group empty_db_def)
  ultimately show ?thesis
    using register_unknown_group_without_groups [of sample_env
        "jan(''carnivalGroupId'' := JStr no_such_group)" empty_db 0 group_1 user_1]
    by simp
qed

text \<open>
  C4, on the code: a registration request with a valid payload and an e-mail not in use,
  whose carnivalGroupId is the identifier of no carnival group while the table of
  carnival groups is empty, is answered 400; the body of the response has no token and
  no user object, and the database is as before.
\<close>

theorem register_valid_payload_without_token:
  assumes "valid_registration e b" and "User_findOne_email d (b ''email'') = Inr None"
    and "names_unknown_group e d b" and "groups d = []"
  shows "status (fst (register e now newGroupId newUserId b d)) = 400 \<and>
         reply_field (fst (register e now newGroupId newUserId b d)) ''token'' = None \<and>
         reply_field (fst (register e now newGroupId newUserId b d)) ''user'' = None \<and>
         snd (register e now newGroupId newUserId b d) = d"
proof -
  from assms(3) have "truthy (b ''carnivalGroupId'')"
      "CarnivalGroup_findByPk e d (b ''carnivalGroupId'') = Inr None"
    by (simp_all add: names_unknown_group_def)
  with register_without_resolved_group [OF assms(1,2) _ assms(4), of now newGroupId newUserId]
  show ?thesis
    by (simp add: register_def register_catch_def reply_def reply_field_def)
qed

theorem register_valid_payload_without_token_witness:
  "valid_registration sample_env (jan(''carnivalGroupId'' := JStr no_such_group)) \<and>
   status (fst (register sample_env 0 group_1 user_1
                  (jan(''carnivalGroupId'' := JStr no_such_group)) empty_db)) = 400 \<and>
   reply_field (fst (register sample_env 0 group_1 user_1
                       (jan(''carnivalGroupId'' := JStr no_such_group)) empty_db)) ''token'' = None \<and>
   users (snd (register sample_env 0 group_1 user_1
                 (jan(''carnivalGroupId'' := JStr no_such_group)) empty_db)) = []"
proof -
  have v: "valid_registration sample_env (jan(''carnivalGroupId'' := JStr no_such_group))"
    by (simp add: valid_registration_def jan_def empty_body_def sample_env_def
        required_varchar_def optional_varchar_def optional_text_def fits_varchar_def fits_text_def
        simple_isEmail_def)
  moreover have "User_findOne_email empty_db
      ((jan(''carnivalGroupId'' := JStr no_such_group)) ''email'') = Inr None"
    by (simp add: User_findOne_email_def empty_db_def jan_def empty_body_def)
  moreover have "groups empty_db = []"
    by (simp add: empty_db_def)
  moreover have "names_unknown_group sample_env empty_db (jan(''carnivalGroupId'' := JStr no_such_group))"
    by (simp add: names_unknown_group_def CarnivalGroup_findByPk_def sample_no_such_group empty_db_def)
       (simp add: no_such_group_def)
  ultimately show ?thesis
    using register_valid_payload_without_token [of sample_env
        "jan(''carnivalGroupId'' := JStr no_such_group)" empty_db 0 group_1 user_1]
    by (simp add: empty_db_def)
qed

subsection \<open>The scenario on the empty database\<close>

text \<open>
  C5, as stated, at a concrete request on the empty database: e-mail, password, first
  name and last name are present and there is no carnivalGroupId, but the e-mail
  \<^verbatim>\<open>jan\<close> is not an e-mail address. The handler creates \<^verbatim>\<open>Default Group\<close>, then
  \<^verbatim>\<open>User.create\<close> fails the \<^verbatim>\<open>isEmail\<close> validation: the answer is 400 without a token,
  and the database holds the group and no user.
\<close>

theorem register_malformed_email_counterexample:
  "register sample_env 0 group_1 user_1 (jan(''email'' := JStr ''jan'')) empty_db =
     (reply 400 [(''error'', JV (JStr ''Validation error'')),
                 (''details'', JArray [JV (JStr ''Validation isEmail on email failed'')])],
      empty_db\<lparr>groups := [sample_group]\<rparr>)"
  by (simp add: register_def register_try_def jan_def empty_body_def empty_db_def
      User_findOne_email_def resolve_group_def CarnivalGroup_findOne_def CarnivalGroup_create_def
      hash_password_def sample_env_def User_create_def User_validate_def register_values_def
      not_null_def reference_not_null_def is_null_def column_text_def js_or_def
      simple_isEmail_def register_catch_def sample_group_def Let_def)

text \<open>
  C5, amended: on the empty database, every registration request with a valid payload
  (e-mail, password, first name and last name non-empty strings that fit their columns,
  the e-mail well-formed, the optional fields absent or strings that fit) and no
  carnivalGroupId creates the carnival group \<^verbatim>\<open>Default Group\<close> with city Brussels, country
  Belgium and verified true, creates one user whose \<^verbatim>\<open>carnivalGroupId\<close> is the identifier
  of that group, and is answered 201 with a token that verifies to the identifier of the
  new user at any time before it expires.
\<close>

theorem register_on_empty_database:
  assumes "valid_registration e b" and "\<not> truthy (b ''carnivalGroupId'')"
  shows "groups (snd (register e now newGroupId newUserId b empty_db)) =
           [\<lparr>cg_id = newGroupId, cg_name = ''Default Group'', cg_city = ''Brussels'',
             cg_province = None, cg_country = ''Belgium'', cg_description = None,
             cg_website = None, cg_verified = True, cg_createdAt = now, cg_updatedAt = now\<rparr>] \<and>
         (\<exists>u. users (snd (register e now newGroupId newUserId b empty_db)) = [u] \<and>
              u_id u = newUserId \<and> b ''email'' = JStr (u_email u) \<and>
              u_carnivalGroupId u = newGroupId) \<and>
         status (fst (register e now newGroupId newUserId b empty_db)) = 201 \<and>
         reply_field (fst (register e now newGroupId newUserId b empty_db)) ''token'' =
           Some (JToken (generateToken e now newUserId)) \<and>
         (\<forall>t < now + seven_days. jwt_verify (generateToken e now newUserId) (secret e) t = Inr newUserId)"
proof -
  from assms(1) obtain s p where b: "b ''email'' = JStr s" "s \<noteq> []" "fits_varchar s" "isEmail e s"
      "b ''password'' = JStr p" "p \<noteq> []"
      "required_varchar (b ''firstName'')" "required_varchar (b ''lastName'')"
    by (rule valid_registrationD)
  have unused: "User_findOne_email empty_db (b ''email'') = Inr None"
    using b(1) by (simp add: User_findOne_email_def empty_db_def)
  have fresh: "newUserId \<notin> set (map u_id (users empty_db))"
    by (simp add: empty_db_def)
  have group: "group_resolvable e empty_db b"
    using assms(2) by (simp add: group_resolvable_def)
  have rg: "resolve_group e now newGroupId (b ''carnivalGroupId'') empty_db =
      (Inr (Inr newGroupId),
       empty_db\<lparr>groups := [\<lparr>cg_id = newGroupId, cg_name = ''Default Group'', cg_city = ''Brussels'',
             cg_province = None, cg_country = ''Belgium'', cg_description = None,
             cg_website = None, cg_verified = True, cg_createdAt = now, cg_updatedAt = now\<rparr>]\<rparr>)"
    using assms(2)
    by (simp add: resolve_group_def CarnivalGroup_findOne_def CarnivalGroup_create_def empty_db_def
        Let_def)
  from register_success [OF assms(1) unused fresh group, of now newGroupId] rg
  obtain u where u: "u_id u = newUserId" "b ''email'' = JStr (u_email u)"
      "u_carnivalGroupId u = newGroupId"
      "fst (register e now newGroupId newUserId b empty_db) =
         registered_reply (generateToken e now newUserId)
           (JObject (exclude [''password''] (User_toJSON u) @
              [(''CarnivalGroup'', include_CarnivalGroup
                  (snd (register e now newGroupId newUserId b empty_db)) newGroupId)]))"
      "snd (register e now newGroupId newUserId b empty_db) =
         empty_db\<lparr>groups := [\<lparr>cg_id = newGroupId, cg_name = ''Default Group'', cg_city = ''Brussels'',
             cg_province = None, cg_country = ''Belgium'', cg_description = None,
             cg_website = None, cg_verified = True, cg_createdAt = now, cg_updatedAt = now\<rparr>],
           users := [u]\<rparr>"
    by (auto simp: reference_def empty_db_def)
  from u show ?thesis
    by (simp add: registered_reply_def reply_def reply_field_def generateToken_verify empty_db_def)
qed

theorem register_on_empty_database_witness:
  "groups (snd (register sample_env 0 group_1 user_1 jan empty_db)) = [sample_group] \<and>
   map u_id (users (snd (register sample_env 0 group_1 user_1 jan empty_db))) = [user_1] \<and>
   map u_carnivalGroupId (users (snd (register sample_env 0 group_1 user_1 jan empty_db))) = [group_1] \<and>
   status (fst (register sample_env 0 group_1 user_1 jan empty_db)) = 201 \<and>
   jwt_verify (generateToken sample_env 0 user_1) (secret sample_env) 3600 = Inr user_1"
proof -
  have "valid_registration sample_env jan"
    by (simp add: valid_registration_def jan_def empty_body_def sample_env_def
        required_varchar_def optional_varchar_def optional_text_def fits_varchar_def fits_text_def
        simple_isEmail_def)
  moreover have "\<not> truthy (jan ''carnivalGroupId'')"
    by (simp add: jan_def empty_body_def)
  ultimately show ?thesis
    using register_on_empty_database [of sample_env jan 0 group_1 user_1]
    by (auto simp: sample_group_def seven_days_def)
qed

section \<open>Concurrent requests\<close>

subsection \<open>What a statement that writes does to the e-mail addresses\<close>

lemma db_write_emails:
  assumes "db_write e d d'"
  shows "map u_email (users d') = map u_email (users d) \<or>
         (\<exists>x. map u_email (users d') = map u_email (users d) @ [x] \<and> x \<notin> set (map u_email (users d)))"
  using assms
proof cases
  case (write_group now newId name city country verified g)
  then show ?thesis
    by (auto simp: CarnivalGroup_create_def Let_def split: if_splits)
next
  case (write_user now newId v u)
  from User_create_Inr [OF this] show ?thesis by auto
next
  case (write_login now pk)
  then show ?thesis
    by (simp add: User_update_lastLoginAt_def touch_login_def comp_def if_distrib cong: if_cong)
next
  case (write_product now newId pv p)
  from Product_create_Inr [OF this] show ?thesis by simp
next
  case write_script
  then show ?thesis by simp
qed

lemma reachable_distinct_emails:
  "reachable e d \<Longrightarrow> distinct (map u_email (users d))"
proof (induction rule: reachable.induct)
  case (reachable_init d)
  then show ?case by simp
next
  case (reachable_write d d')
  from db_write_emails [OF reachable_write.hyps(2)] reachable_write.IH show ?case by auto
qed

lemma db_write_keeps_email:
  assumes "db_write e d d'" and "email_taken d v"
  shows "email_taken d' v"
proof -
  from db_write_emails [OF assms(1)]
  obtain xs where "map u_email (users d') = map u_email (users d) @ xs"
    by auto
  then have "set (map u_email (users d')) = set (map u_email (users d)) \<union> set xs"
    by (simp only: set_append)
  with assms(2) show ?thesis
    by (auto simp: email_taken_def split: jsval.splits)
qed

lemma writes_keep_email:
  "(db_write e)\<^sup>*\<^sup>* d d' \<Longrightarrow> email_taken d v \<Longrightarrow> email_taken d' v"
  by (induction rule: rtranclp_induct) (auto intro: db_write_keeps_email)

lemma at_most_one_row:
  "distinct (map f xs) \<Longrightarrow> length (filter (\<lambda>x. f x = a) xs) \<le> Suc 0"
proof (induction xs)
  case Nil
  show ?case by simp
next
  case (Cons x xs)
  show ?case
  proof (cases "f x = a")
    case True
    with Cons.prems have "a \<notin> f ` set xs"
      by simp
    then have "\<forall>y \<in> set xs. f y \<noteq> a"
      by blast
    then have "filter (\<lambda>x. f x = a) xs = []"
      by (simp add: filter_empty_conv)
    with True show ?thesis by simp
  next
    case False
    with Cons show ?thesis by simp
  qed
qed

subsection \<open>The handlers change the database by such statements only\<close>

lemma reg_step_writes:
  assumes "reg_step e now newGroupId newUserId b pc d = (pc', d')"
  shows "d' = d \<or> db_write e d d'"
proof (cases pc)
  case Reg_createGroup
  with assms show ?thesis
    by (auto split: sum.splits intro: write_group)
next
  case (Reg_createUser g h)
  with assms show ?thesis
    by (auto split: sum.splits intro: write_user)
qed (use assms in \<open>auto split: if_splits sum.splits option.splits\<close>)

lemma login_writes:
  assumes "login e now b d = (res, d')"
  shows "d' = d \<or> db_write e d d'"
  using assms
  by (auto simp: login_def Let_def split: if_splits option.splits sum.splits intro: write_login)

lemma post_products_writes:
  assumes "post_products e now newId authHeader b d = (res, d')"
  shows "d' = d \<or> db_write e d d'"
  using assms
  by (auto simp: post_products_def create_product_def Let_def
        split: if_splits sum.splits prod.splits intro: write_product)

lemma register_alt_writes:
  assumes "register_alt e now newUserId b d = (res, d')"
  shows "d' = d \<or> db_write e d d'"
  using assms
  by (auto simp: register_alt_def register_alt_try_def Let_def
        split: if_splits sum.splits option.splits prod.splits intro: write_user)

subsection \<open>The handler without interruption\<close>

lemma run_done:
  "reg_run e now newGroupId newUserId b n (Reg_done res, d) = (Reg_done res, d)"
  by (induction n) simp_all

lemma run_createUser:
  "reg_run e now newGroupId newUserId b (Suc (Suc n)) (Reg_createUser g h, d) =
     (case User_create e now newUserId (register_values b g h) d of
        Inl err \<Rightarrow> (Reg_done (register_catch e err), d)
      | Inr (user, d2) \<Rightarrow>
          (Reg_done (registered_reply (generateToken e now (u_id user))
                       (User_findByPk_public d2 (u_id user))), d2))"
  by (simp add: run_done split: sum.splits prod.splits)

lemma run_hash:
  "reg_run e now newGroupId newUserId b (Suc (Suc (Suc n))) (Reg_hash g, d) =
     (case hash_password e (b ''password'') of
        Inl err \<Rightarrow> (Reg_done (register_catch e err), d)
      | Inr h \<Rightarrow>
          (case User_create e now newUserId (register_values b g h) d of
             Inl err \<Rightarrow> (Reg_done (register_catch e err), d)
           | Inr (user, d2) \<Rightarrow>
               (Reg_done (registered_reply (generateToken e now (u_id user))
                            (User_findByPk_public d2 (u_id user))), d2)))"
proof -
  have "reg_run e now newGroupId newUserId b (Suc (Suc (Suc n))) (Reg_hash g, d) =
      reg_run e now newGroupId newUserId b (Suc (Suc n))
        (reg_step e now newGroupId newUserId b (Reg_hash g) d)"
    by simp
  then show ?thesis
    by (simp only: reg_step.simps)
       (simp add: run_done run_createUser del: reg_run.simps split: sum.splits)
qed

lemma run_findGroup:
  "reg_run e now newGroupId newUserId b (Suc (Suc (Suc (Suc (Suc n))))) (Reg_findGroup, d) =
     (case resolve_group e now newGroupId (b ''carnivalGroupId'') d of
        (Inl err, d1) \<Rightarrow> (Reg_done (register_catch e err), d1)
      | (Inr g, d1) \<Rightarrow>
          reg_run e now newGroupId newUserId b (Suc (Suc (Suc n))) (Reg_hash g, d1))"
proof -
  have longer: "reg_run e now newGroupId newUserId b (Suc (Suc (Suc (Suc n)))) (Reg_hash g, x) =
      reg_run e now newGroupId newUserId b (Suc (Suc (Suc n))) (Reg_hash g, x)" for g x
    by (simp only: run_hash)
  have cg: "reg_run e now newGroupId newUserId b (Suc (Suc (Suc (Suc n)))) (Reg_createGroup, d) =
      (case CarnivalGroup_create now newGroupId ''Default Group'' ''Brussels'' ''Belgium'' True d of
         Inl err \<Rightarrow> (Reg_done (register_catch e err), d)
       | Inr (newGroup, d') \<Rightarrow>
           reg_run e now newGroupId newUserId b (Suc (Suc (Suc n))) (Reg_hash (Inr (cg_id newGroup)), d'))"
  proof -
    have "reg_run e now newGroupId newUserId b (Suc (Suc (Suc (Suc n)))) (Reg_createGroup, d) =
        reg_run e now newGroupId newUserId b (Suc (Suc (Suc n)))
          (reg_step e now newGroupId newUserId b Reg_createGroup d)"
      by simp
    then show ?thesis
      by (simp only: reg_step.simps)
         (simp add: run_done del: reg_run.simps split: sum.splits)
  qed
  have fd: "reg_run e now newGroupId newUserId b (Suc (Suc (Suc (Suc n)))) (Reg_findDefault, d) =
      (case CarnivalGroup_findOne d of
         Some defaultGroup \<Rightarrow>
           reg_run e now newGroupId newUserId b (Suc (Suc (Suc n))) (Reg_hash (Inr (cg_id defaultGroup)), d)
       | None \<Rightarrow> reg_run e now newGroupId newUserId b (Suc (Suc (Suc n))) (Reg_hash (Inl JNull), d))"
  proof -
    have "reg_run e now newGroupId newUserId b (Suc (Suc (Suc (Suc n)))) (Reg_findDefault, d) =
        reg_run e now newGroupId newUserId b (Suc (Suc (Suc n)))
          (reg_step e now newGroupId newUserId b Reg_findDefault d)"
      by simp
    then show ?thesis
      by (simp only: reg_step.simps)
         (simp del: reg_run.simps split: option.splits)
  qed
  have "reg_run e now newGroupId newUserId b (Suc (Suc (Suc (Suc (Suc n))))) (Reg_findGroup, d) =
      reg_run e now newGroupId newUserId b (Suc (Suc (Suc (Suc n))))
        (reg_step e now newGroupId newUserId b Reg_findGroup d)"
    by simp
  then show ?thesis
    by (simp only: reg_step.simps)
       (simp add: run_done cg fd longer resolve_group_def del: reg_run.simps
          split: sum.splits option.splits)
qed

lemma register_serial:
  "reg_serial e now newGroupId newUserId b d =
     (Reg_done (fst (register e now newGroupId newUserId b d)),
      snd (register e now newGroupId newUserId b d))"
proof -
  have seven: "(7::nat) = Suc (Suc (Suc (Suc (Suc (Suc (Suc 0))))))"
    by simp
  have "reg_run e now newGroupId newUserId b (Suc (Suc (Suc (Suc (Suc (Suc (Suc 0))))))) (Reg_findUser, d) =
      reg_run e now newGroupId newUserId b (Suc (Suc (Suc (Suc (Suc (Suc 0))))))
        (reg_step e now newGroupId newUserId b Reg_findUser d)"
    by simp
  then show ?thesis
    unfolding reg_serial_def seven
    by (simp only: reg_step.simps)
       (simp add: run_done run_findGroup run_hash register_def register_try_def
          del: reg_run.simps split: sum.splits option.splits prod.splits)
qed


lemma serial_run_moves:
  "(reg_move e newGroupId newUserId b)\<^sup>*\<^sup>* s (reg_run e now newGroupId newUserId b n s)"
proof (induction n arbitrary: s)
  case 0
  show ?case by simp
next
  case (Suc n)
  obtain pc d where s: "s = (pc, d)" by (cases s)
  obtain pc' d' where t: "reg_step e now newGroupId newUserId b pc d = (pc', d')"
    by (cases "reg_step e now newGroupId newUserId b pc d")
  from t have "reg_move e newGroupId newUserId b (pc, d) (pc', d')" by (rule reg_own)
  then have "(reg_move e newGroupId newUserId b)\<^sup>*\<^sup>* s (pc', d')"
    using s by simp
  also from Suc.IH [of "(pc', d')"]
  have "(reg_move e newGroupId newUserId b)\<^sup>*\<^sup>* (pc', d')
          (reg_run e now newGroupId newUserId b (Suc n) s)"
    using s t by simp
  finally show ?case .
qed

subsection \<open>A registration request whose e-mail is already taken\<close>

lemma User_create_taken:
  assumes "email_taken d (v_email v)"
  shows "\<exists>err. User_create e now newId v d = Inl err \<and>
           (User_validate e v = [] \<longrightarrow> User_faults e v = [] \<longrightarrow> err = SequelizeUniqueConstraintError)"
  using assms
  by (auto simp: email_taken_def User_create_def column_text_def split: jsval.splits)

lemma reg_step_keeps_email:
  assumes "reg_step e now newGroupId newUserId b pc d = (pc', d')" and "email_taken d v"
  shows "email_taken d' v"
  using reg_step_writes [OF assms(1)] assms(2) by (auto intro: db_write_keeps_email)

lemma reg_step_findUser_taken:
  assumes "email_taken d (b ''email'')"
  shows "\<exists>r. reg_step e now newGroupId newUserId b Reg_findUser d = (Reg_done r, d) \<and> status r = 400"
proof -
  from assms obtain s where s: "b ''email'' = JStr s" "s \<in> set (map u_email (users d))"
    by (auto simp: email_taken_def split: jsval.splits)
  then have "User_findOne_email d (b ''email'') \<noteq> Inr None"
    by (auto simp: User_findOne_email_def find_None_iff)
  with s(1) show ?thesis
    by (auto simp: error_reply_def reply_def User_findOne_email_def split: sum.splits option.splits)
qed

lemma reg_step_before_insert_taken:
  assumes "email_taken d (b ''email'')" and "before_insert pc"
    and "reg_step e now newGroupId newUserId b pc d = (pc', d')"
  shows "before_insert pc' \<or> (\<exists>r. pc' = Reg_done r \<and> (status r = 400 \<or> status r = 500))"
proof (cases pc)
  case Reg_findUser
  with reg_step_findUser_taken [where b = b and d = d and e = e and now = now and newGroupId = newGroupId and newUserId = newUserId] assms(1) assms(3) show ?thesis
    by auto
next
  case (Reg_createUser g h)
  have "email_taken d (v_email (register_values b g h))"
    using assms(1) by (simp add: register_values_def)
  from User_create_taken [OF this, of e now newUserId]
  obtain err where "User_create e now newUserId (register_values b g h) d = Inl err" by blast
  with Reg_createUser assms(3) have "pc' = Reg_done (register_catch e err)" by auto
  with register_catch_status [of e err] show ?thesis by simp
qed (use assms register_catch_status [of e] in \<open>auto split: if_splits sum.splits option.splits\<close>)

lemma late_request_rejected:
  assumes "(reg_move e newGroupId newUserId b)\<^sup>*\<^sup>* (Reg_findUser, d) (pc, d')"
    and "email_taken d (b ''email'')"
  shows "email_taken d' (b ''email'') \<and> (pc = Reg_findUser \<or> (\<exists>r. pc = Reg_done r \<and> status r = 400))"
  using assms
proof (induction rule: rtranclp_induct2)
  case refl
  then show ?case by simp
next
  case (step pc1 d1 pc2 d2)
  then have IH: "email_taken d1 (b ''email'')"
      "pc1 = Reg_findUser \<or> (\<exists>r. pc1 = Reg_done r \<and> status r = 400)"
    by simp_all
  from step.hyps(2) show ?case
  proof cases
    case (reg_own now)
    from reg_step_keeps_email [OF reg_own IH(1)] have "email_taken d2 (b ''email'')" .
    moreover from IH(2) reg_own reg_step_findUser_taken [where b = b and d = d1 and e = e and now = now and newGroupId = newGroupId and newUserId = newUserId] IH(1)
    have "\<exists>r. pc2 = Reg_done r \<and> status r = 400" by auto
    ultimately show ?thesis by simp
  next
    case reg_other
    with IH db_write_keeps_email [of e d1 d2] show ?thesis by simp
  qed
qed

lemma racing_request_not_registered:
  assumes "(reg_move e newGroupId newUserId b)\<^sup>*\<^sup>* (pc0, d) (pc, d')"
    and "email_taken d (b ''email'')" and "before_insert pc0"
  shows "email_taken d' (b ''email'') \<and>
         (before_insert pc \<or> (\<exists>r. pc = Reg_done r \<and> (status r = 400 \<or> status r = 500)))"
  using assms
proof (induction rule: rtranclp_induct2)
  case refl
  then show ?case by simp
next
  case (step pc1 d1 pc2 d2)
  then have IH: "email_taken d1 (b ''email'')"
      "before_insert pc1 \<or> (\<exists>r. pc1 = Reg_done r \<and> (status r = 400 \<or> status r = 500))"
    by simp_all
  from step.hyps(2) show ?case
  proof cases
    case (reg_own now)
    from reg_step_keeps_email [OF reg_own IH(1)] have "email_taken d2 (b ''email'')" .
    moreover from IH(2) have "before_insert pc2 \<or> (\<exists>r. pc2 = Reg_done r \<and> (status r = 400 \<or> status r = 500))"
    proof
      assume "before_insert pc1"
      from reg_step_before_insert_taken [OF IH(1) this reg_own] show ?thesis .
    next
      assume "\<exists>r. pc1 = Reg_done r \<and> (status r = 400 \<or> status r = 500)"
      with reg_own show ?thesis by auto
    qed
    ultimately show ?thesis by simp
  next
    case reg_other
    with IH db_write_keeps_email [of e d1 d2] show ?thesis by simp
  qed
qed

subsection \<open>A registration request that is answered 201\<close>

lemma reg_step_registers:
  assumes "reg_step e now newGroupId newUserId b pc d = (pc', d')"
    and "case pc of Reg_findUser \<Rightarrow> True
         | Reg_fetch userId tok \<Rightarrow> email_taken d (b ''email'')
         | Reg_done r \<Rightarrow> status r = 201 \<longrightarrow> email_taken d (b ''email'')
         | _ \<Rightarrow> \<exists>s. b ''email'' = JStr s"
  shows "case pc' of Reg_findUser \<Rightarrow> True
         | Reg_fetch userId tok \<Rightarrow> email_taken d' (b ''email'')
         | Reg_done r \<Rightarrow> status r = 201 \<longrightarrow> email_taken d' (b ''email'')
         | _ \<Rightarrow> \<exists>s. b ''email'' = JStr s"
proof (cases pc)
  case Reg_findUser
  with assms(1) show ?thesis
    by (auto simp: error_reply_def reply_def register_catch_not_201 User_findOne_email_def
          split: if_splits sum.splits option.splits jsval.splits)
next
  case (Reg_createUser g h)
  with assms(2) obtain s where s: "b ''email'' = JStr s" by auto
  show ?thesis
  proof (cases "User_create e now newUserId (register_values b g h) d")
    case (Inl err)
    with Reg_createUser assms(1) show ?thesis by (auto simp: register_catch_not_201)
  next
    case (Inr ud)
    obtain u d2 where "ud = (u, d2)" by (cases ud)
    with Inr have c: "User_create e now newUserId (register_values b g h) d = Inr (u, d2)" by simp
    from User_create_Inr [OF c] s have "email_taken d2 (b ''email'')"
      by (simp add: email_taken_def register_values_def column_text_def)
    with c Reg_createUser assms(1) show ?thesis by auto
  qed
next
  case (Reg_fetch userId tok)
  with assms show ?thesis by auto
next
  case (Reg_done r)
  with assms show ?thesis by auto
qed (use assms in \<open>auto simp: register_catch_not_201 split: if_splits sum.splits option.splits\<close>)

lemma registered_request_takes_email:
  assumes "(reg_move e newGroupId newUserId b)\<^sup>*\<^sup>* (Reg_findUser, d) (pc, d')"
  shows "case pc of Reg_findUser \<Rightarrow> True
         | Reg_fetch userId tok \<Rightarrow> email_taken d' (b ''email'')
         | Reg_done r \<Rightarrow> status r = 201 \<longrightarrow> email_taken d' (b ''email'')
         | _ \<Rightarrow> \<exists>s. b ''email'' = JStr s"
  using assms
proof (induction rule: rtranclp_induct2)
  case refl
  show ?case by simp
next
  case (step pc1 d1 pc2 d2)
  from step.hyps(2) show ?case
  proof cases
    case (reg_own now)
    from reg_step_registers [OF reg_own step.IH] show ?thesis .
  next
    case reg_other
    with step.IH db_write_keeps_email [of e d1 d2 "b ''email''"] show ?thesis
      by (cases pc1) auto
  qed
qed

lemma register_existing_email:
  assumes "email_taken d (b ''email'')"
  shows "status (fst (register e now newGroupId newUserId b d)) = 400 \<and>
         snd (register e now newGroupId newUserId b d) = d"
proof -
  from assms reg_step_findUser_taken [where b = b and d = d and e = e and now = now and newGroupId = newGroupId and newUserId = newUserId]
  obtain r where r: "reg_step e now newGroupId newUserId b Reg_findUser d = (Reg_done r, d)"
      "status r = 400"
    by blast
  then have "reg_serial e now newGroupId newUserId b d = (Reg_done r, d)"
    by (simp add: reg_serial_def eval_nat_numeral run_done del: reg_step.simps)
  with r(2) show ?thesis
    by (simp add: register_serial)
qed

lemma run_writes:
  "(db_write e)\<^sup>*\<^sup>* (snd s) (snd (reg_run e now newGroupId newUserId b n s))"
proof (induction n arbitrary: s)
  case 0
  show ?case by simp
next
  case (Suc n)
  obtain pc d where s: "s = (pc, d)" by (cases s)
  obtain pc' d' where t: "reg_step e now newGroupId newUserId b pc d = (pc', d')"
    by (cases "reg_step e now newGroupId newUserId b pc d")
  from reg_step_writes [OF t] have "(db_write e)\<^sup>*\<^sup>* (snd s) d'"
    using s by auto
  also from Suc.IH [of "(pc', d')"]
  have "(db_write e)\<^sup>*\<^sup>* d' (snd (reg_run e now newGroupId newUserId b (Suc n) s))"
    using s t by simp
  finally show ?case .
qed

lemma register_writes:
  "(db_write e)\<^sup>*\<^sup>* d (snd (register e now newGroupId newUserId b d))"
  using run_writes [of e "(Reg_findUser, d)" now newGroupId newUserId b 7]
  by (simp only: reg_serial_def [symmetric] register_serial snd_conv)

lemma writes_reachable:
  "(db_write e)\<^sup>*\<^sup>* d d' \<Longrightarrow> reachable e d \<Longrightarrow> reachable e d'"
  by (induction rule: rtranclp_induct) (auto intro: reachable_write)

subsection \<open>Two registrations with one e-mail\<close>

text \<open>
  C2: two registration requests carry the same e-mail. The first is served among other
  requests, which write between its steps, and is answered 201; other requests may write
  before the second one arrives. Then the second is answered 400 and writes nothing when
  it is served alone; it is answered 400 however the other requests write between its
  steps; a request with that e-mail that had already passed the look-up of line 50 when
  the first inserted its row is answered 400 or 500, never 201, and when its values pass
  the validators and the column types the insert of line 94 fails on the unique constraint
  and lines 138 to 142 answer 400 \<^verbatim>\<open>Email already exists\<close>; and in every reachable
  database at most one user row has that e-mail.
\<close>

theorem register_twice_same_email:
  assumes first: "(reg_move e newGroupId newUserId b)\<^sup>*\<^sup>* (Reg_findUser, d) (Reg_done res, registered)"
    and created: "status res = 201"
    and between: "(db_write e)\<^sup>*\<^sup>* registered later"
    and same: "b' ''email'' = b ''email''"
  shows "status (fst (register e now' newGroupId' newUserId' b' later)) = 400 \<and>
         snd (register e now' newGroupId' newUserId' b' later) = later \<and>
         ((reg_move e newGroupId' newUserId' b')\<^sup>*\<^sup>* (Reg_findUser, later) (Reg_done r, d') \<longrightarrow>
            status r = 400) \<and>
         (before_insert pc \<longrightarrow>
          (reg_move e newGroupId' newUserId' b')\<^sup>*\<^sup>* (pc, later) (Reg_done r', d'') \<longrightarrow>
            status r' = 400 \<or> status r' = 500) \<and>
         (User_validate e (register_values b' groupId hashedPassword) = [] \<longrightarrow>
          User_faults e (register_values b' groupId hashedPassword) = [] \<longrightarrow>
            reg_step e now' newGroupId' newUserId' b' (Reg_createUser groupId hashedPassword) later =
              (Reg_done (error_reply 400 ''Email already exists''), later)) \<and>
         (reachable e x \<longrightarrow>
            length (filter (\<lambda>u. JStr (u_email u) = b ''email'') (users x)) \<le> 1)"
proof -
  from registered_request_takes_email [OF first] created
  have "email_taken registered (b ''email'')" by simp
  with between have "email_taken later (b ''email'')" by (rule writes_keep_email)
  with same have taken: "email_taken later (b' ''email'')" by simp
  have alone: "status (fst (register e now' newGroupId' newUserId' b' later)) = 400 \<and>
      snd (register e now' newGroupId' newUserId' b' later) = later"
    using taken by (rule register_existing_email)
  have late: "status r = 400"
    if "(reg_move e newGroupId' newUserId' b')\<^sup>*\<^sup>* (Reg_findUser, later) (Reg_done r, d')"
    using late_request_rejected [OF that taken] by simp
  have racing: "status r' = 400 \<or> status r' = 500"
    if "before_insert pc"
      and "(reg_move e newGroupId' newUserId' b')\<^sup>*\<^sup>* (pc, later) (Reg_done r', d'')"
    using racing_request_not_registered [OF that(2) taken that(1)] by simp
  have constraint: "reg_step e now' newGroupId' newUserId' b' (Reg_createUser groupId hashedPassword) later =
      (Reg_done (error_reply 400 ''Email already exists''), later)"
    if "User_validate e (register_values b' groupId hashedPassword) = []"
      and "User_faults e (register_values b' groupId hashedPassword) = []"
  proof -
    have "email_taken later (v_email (register_values b' groupId hashedPassword))"
      using taken by (simp add: register_values_def)
    from User_create_taken [OF this, of e now' newUserId'] that
    have "User_create e now' newUserId' (register_values b' groupId hashedPassword) later =
        Inl SequelizeUniqueConstraintError"
      by auto
    then show ?thesis by (simp add: register_catch_def)
  qed
  have rows: "length (filter (\<lambda>u. JStr (u_email u) = b ''email'') (users x)) \<le> 1"
    if "reachable e x"
  proof -
    from taken same obtain s where s: "b ''email'' = JStr s"
      by (auto simp: email_taken_def split: jsval.splits)
    from reachable_distinct_emails [OF that]
    have "length (filter (\<lambda>u. u_email u = s) (users x)) \<le> Suc 0"
      by (rule at_most_one_row)
    with s show ?thesis by simp
  qed
  from alone late racing constraint rows show ?thesis by blast
qed

theorem register_twice_same_email_witness:
  "status (fst (register sample_env 0 group_1 user_1 jan empty_db)) = 201 \<and>
   status (fst (register sample_env 60 group_2 user_2 jan
     (snd (register sample_env 0 group_1 user_1 jan empty_db)))) = 400 \<and>
   snd (register sample_env 60 group_2 user_2 jan
     (snd (register sample_env 0 group_1 user_1 jan empty_db))) =
     snd (register sample_env 0 group_1 user_1 jan empty_db) \<and>
   reg_step sample_env 60 group_2 user_2 jan
     (Reg_createUser (Inr group_1) (bcrypt_hash sample_env ''Str0ng!Pass''))
     (snd (register sample_env 0 group_1 user_1 jan empty_db)) =
     (Reg_done (error_reply 400 ''Email already exists''),
      snd (register sample_env 0 group_1 user_1 jan empty_db)) \<and>
   length (filter (\<lambda>u. JStr (u_email u) = jan ''email'')
     (users (snd (register sample_env 0 group_1 user_1 jan empty_db)))) \<le> 1"
proof -
  let ?first = "register sample_env 0 group_1 user_1 jan empty_db"
  have valid: "valid_registration sample_env jan"
    by (simp add: valid_registration_def jan_def empty_body_def sample_env_def
        required_varchar_def optional_varchar_def optional_text_def fits_varchar_def fits_text_def
        simple_isEmail_def)
  have "group_resolvable sample_env empty_db jan"
    by (simp add: group_resolvable_def jan_def empty_body_def)
  from register_success [OF valid _ _ this, of user_1 0 group_1]
  have created: "status (fst ?first) = 201"
    by (auto simp: User_findOne_email_def jan_def empty_db_def registered_reply_def reply_def)
  have "(reg_move sample_env group_1 user_1 jan)\<^sup>*\<^sup>* (Reg_findUser, empty_db)
      (reg_serial sample_env 0 group_1 user_1 jan empty_db)"
    unfolding reg_serial_def by (rule serial_run_moves)
  then have run: "(reg_move sample_env group_1 user_1 jan)\<^sup>*\<^sup>* (Reg_findUser, empty_db)
      (Reg_done (fst ?first), snd ?first)"
    by (simp only: register_serial)
  have reach: "reachable sample_env (snd ?first)"
  proof -
    have "reachable sample_env empty_db"
      by (rule reachable_init) (simp_all add: empty_db_def)
    with register_writes [of sample_env empty_db 0 group_1 user_1 jan] show ?thesis
      by (rule writes_reachable)
  qed
  have ref: "reference sample_env (Inr group_1) = Some group_1"
    by (simp add: reference_def)
  have nn: "reference_not_null ''User'' ''carnivalGroupId'' (Inr group_1) = []"
    by (simp add: reference_not_null_def)
  note v = register_values_accepted(1) [OF valid ref nn, of "bcrypt_hash sample_env ''Str0ng!Pass''"]
  note f = register_values_accepted(2) [OF valid ref nn, of "bcrypt_hash sample_env ''Str0ng!Pass''"]
  have between: "(db_write sample_env)\<^sup>*\<^sup>* (snd ?first) (snd ?first)"
    by simp
  have same: "jan ''email'' = jan ''email''"
    by simp
  from register_twice_same_email [where e = sample_env and b = jan and b' = jan
        and d = empty_db and newGroupId = group_1 and newUserId = user_1
        and res = "fst ?first" and registered = "snd ?first" and later = "snd ?first"
        and now' = 60 and newGroupId' = group_2 and newUserId' = user_2
        and groupId = "Inr group_1" and hashedPassword = "bcrypt_hash sample_env ''Str0ng!Pass''"
        and x = "snd ?first", OF run created between same]
    created reach v f
  show ?thesis by simp
qed

end
